theory Spec2Isabelle
  imports Main "HOL-Library.Sublist"
begin

section \<open>JavaScript strings and values\<close>

text \<open>
  A JavaScript string is modelled as a \<^typ>\<open>string\<close>: a list of code units. Header values,
  host names and request paths reach the program decoded as latin1, one 8-bit code unit
  per character, which is what \<^typ>\<open>char\<close> holds; the strings of the configuration are
  taken over the same code units. \<open>length\<close> is JavaScript's \<open>.length\<close>. An optional value
  (\<open>undefined\<close>) is \<open>None\<close>.
\<close>

definition startsWith :: "string \<Rightarrow> string \<Rightarrow> bool" where
  \<comment> \<open>\<open>s.startsWith(p)\<close>\<close>
  "startsWith s p = (take (length p) s = p)"

definition endsWith :: "string \<Rightarrow> string \<Rightarrow> bool" where
  \<comment> \<open>\<open>s.endsWith(p)\<close>\<close>
  "endsWith s p = (length p \<le> length s \<and> drop (length s - length p) s = p)"

definition substring_from :: "string \<Rightarrow> nat \<Rightarrow> string" where
  \<comment> \<open>\<open>s.substring(n)\<close>\<close>
  "substring_from s n = drop n s"

definition substring :: "string \<Rightarrow> nat \<Rightarrow> nat \<Rightarrow> string" where
  \<comment> \<open>\<open>s.substring(a, b)\<close>; the arguments are swapped when \<open>a > b\<close>\<close>
  "substring s a b = (if a \<le> b then take (b - a) (drop a s) else take (a - b) (drop b s))"

definition toLowerChar :: "char \<Rightarrow> char" where
  \<comment> \<open>lower case of one latin1 code unit: A-Z, and the accented capitals but the
      multiplication sign\<close>
  "toLowerChar c =
     (let n = (of_char c :: nat)
      in if (65 \<le> n \<and> n \<le> 90) \<or> (192 \<le> n \<and> n \<le> 222 \<and> n \<noteq> 215)
         then char_of (n + 32) else c)"

definition toLowerCase :: "string \<Rightarrow> string" where
  "toLowerCase s = map toLowerChar s"

definition repeat_str :: "string \<Rightarrow> nat \<Rightarrow> string" where
  \<comment> \<open>\<open>s.repeat(n)\<close>\<close>
  "repeat_str s n = concat (replicate n s)"

definition digit_char :: "nat \<Rightarrow> char" where
  "digit_char d = char_of (48 + d)"

fun num_to_string :: "nat \<Rightarrow> string" where
  \<comment> \<open>a template literal's rendering of a non-negative integer: decimal, no leading zero\<close>
  "num_to_string n =
     (if n < 10 then [digit_char n] else num_to_string (n div 10) @ [digit_char (n mod 10)])"

declare num_to_string.simps [simp del]

definition truthy :: "string option \<Rightarrow> bool" where
  \<comment> \<open>a string-or-undefined in a condition: \<open>undefined\<close> and the empty string are falsy\<close>
  "truthy v = (case v of None \<Rightarrow> False | Some s \<Rightarrow> s \<noteq> [])"

definition js_or :: "string option \<Rightarrow> string option \<Rightarrow> string option" where
  \<comment> \<open>\<open>a || b\<close> on strings-or-undefined\<close>
  "js_or a b = (if truthy a then a else b)"

section \<open>Configuration types (types.ts)\<close>

datatype LogLevel = LNone | LError | LWarn | LInfo | LDebug
  \<comment> \<open>\<open>'none' | 'error' | 'warn' | 'info' | 'debug'\<close>\<close>

record RouteConfig =
  target :: string
  path :: "string option"
  pathReplace :: "string option"
  logging :: "LogLevel option"
  enabled :: "bool option"
  logRequestHeaders :: "bool option"
  logRequestBody :: "bool option"
  logResponseHeaders :: "bool option"
  logResponseBody :: "bool option"

text \<open>
  The route table \<open>config.routes\<close> is an object; \<open>Object.entries\<close> lists it as pairs of
  route key and route, in the object's own order. The model takes that list.
\<close>

type_synonym Routes = "(string \<times> RouteConfig) list"

datatype json = JStr string | JArr "json list" | JObj "(string \<times> json) list" | JUndefined

section \<open>Route resolver (proxy-server.ts, findRoute)\<close>

definition splitRouteKey :: "string \<Rightarrow> string \<times> string option" where
  \<comment> \<open>\<open>routeKey.includes(':')\<close>, then the first two pieces of \<open>routeKey.split(':', 2)\<close>\<close>
  "splitRouteKey routeKey =
     (if CHR '':'' \<in> set routeKey
      then (takeWhile (\<lambda>c. c \<noteq> CHR '':'') routeKey,
            Some (takeWhile (\<lambda>c. c \<noteq> CHR '':'')
                   (tl (dropWhile (\<lambda>c. c \<noteq> CHR '':'') routeKey))))
      else (routeKey, None))"

definition matchDomain :: "string \<Rightarrow> string \<Rightarrow> nat option" where
  \<comment> \<open>the domain matching of one loop iteration: \<open>None\<close> when \<open>domainMatch\<close> stays false,
      else the score so far\<close>
  "matchDomain routeDomain reqDomain =
     (if routeDomain = reqDomain then Some 1000
      else if startsWith routeDomain ''*.'' then
        (let baseDomain = substring_from routeDomain 2
         in if endsWith reqDomain baseDomain then Some 500 else None)
      else None)"

definition pathToMatch :: "string \<Rightarrow> RouteConfig \<Rightarrow> string option" where
  \<comment> \<open>\<open>routePath || route.path\<close>\<close>
  "pathToMatch routeKey route = js_or (snd (splitRouteKey routeKey)) (path route)"

definition routeCandidate ::
  "string \<Rightarrow> string option \<Rightarrow> string \<times> RouteConfig \<Rightarrow> (RouteConfig \<times> nat) option" where
  \<comment> \<open>one iteration of the loop over the entries: the candidate it pushes, if any\<close>
  "routeCandidate reqDomain url entry =
     (let routeKey = fst entry; route = snd entry;
          routeDomain = fst (splitRouteKey routeKey)
      in case matchDomain routeDomain reqDomain of
           None \<Rightarrow> None
         | Some score \<Rightarrow>
             (let p = pathToMatch routeKey route
              in if truthy p \<and> truthy url then
                   (if startsWith (the url) (the p)
                    then Some (route, score + length (the p))
                    else None)
                 else if \<not> truthy p then Some (route, score)
                 else None))"

definition findRoute :: "Routes \<Rightarrow> string \<Rightarrow> string option \<Rightarrow> RouteConfig option" where
  \<comment> \<open>\<open>candidates.sort((a, b) => b.score - a.score)\<close> is a stable sort by descending
      score; the result is \<open>candidates[0].route\<close>\<close>
  "findRoute routes reqDomain url =
     (let candidates = List.map_filter (routeCandidate reqDomain url) routes
      in if length candidates = 0 then None
         else Some (fst (hd (sort_key (\<lambda>c. - int (snd c)) candidates))))"

text \<open>A route with a target and every optional field omitted, for the examples.\<close>

definition plainRoute :: "string \<Rightarrow> RouteConfig" where
  "plainRoute t = \<lparr>target = t, path = None, pathReplace = None, logging = None, enabled = None,
     logRequestHeaders = None, logRequestBody = None, logResponseHeaders = None,
     logResponseBody = None\<rparr>"

section \<open>Request handling (proxy-server.ts, handleRequest and proxyRequest)\<close>

text \<open>
  What becomes of a request: the response written to the client, or the target and the
  path it is forwarded with. The capture of the body, the trace and the log lines of the
  handlers have no part in that choice and are left out here; the trace manager and the
  logger are modelled below.

  \<open>createProxy\<close> begins with \<open>new URL(target)\<close>, which throws for a target that is not a
  URL. The URL parser is the platform's; it is the parameter \<open>newURL\<close>, which gives the
  message of the error thrown (\<open>Inl\<close>) or the protocol of the URL (\<open>Inr\<close>). The throw is
  caught in \<open>proxyRequest\<close>, whose promise is rejected with it, and \<open>handleRequest\<close>
  catches the rejection and answers with \<open>handleError\<close>.
\<close>

datatype Handled =
    Responded nat json      \<comment> \<open>\<open>res.writeHead(status)\<close> and the JSON body of \<open>res.end\<close>\<close>
  | Proxied string "string option"
      \<comment> \<open>\<open>proxy.web(req, res)\<close> to the route's target, with \<open>req.url\<close> as it then is\<close>

definition extractDomain :: "string option \<Rightarrow> string" where
  \<comment> \<open>from the Host header: \<open>host.split(':')[0]\<close>, or \<open>'unknown'\<close>\<close>
  "extractDomain host =
     (if \<not> truthy host then ''unknown'' else takeWhile (\<lambda>c. c \<noteq> CHR '':'') (the host))"

definition handleNotFound :: "Routes \<Rightarrow> string \<Rightarrow> string \<Rightarrow> Handled" where
  "handleNotFound routes tid reqDomain =
     Responded 404 (JObj [(''error'', JStr ''No route configured''), (''domain'', JStr reqDomain),
                          (''traceId'', JStr tid),
                          (''availableRoutes'', JArr (map (\<lambda>e. JStr (fst e)) routes))])"

definition handleDisabled :: "string \<Rightarrow> string \<Rightarrow> Handled" where
  "handleDisabled tid reqDomain =
     Responded 503 (JObj [(''error'', JStr ''Route disabled''), (''domain'', JStr reqDomain),
                          (''traceId'', JStr tid)])"

definition rewriteUrl :: "RouteConfig \<Rightarrow> string option \<Rightarrow> string option" where
  \<comment> \<open>the path replacement at the head of \<open>proxyRequest\<close>\<close>
  "rewriteUrl route url =
     (if truthy (path route) \<and> pathReplace route \<noteq> None \<and> truthy url then
        (if startsWith (the url) (the (path route))
         then Some (the (pathReplace route) @ substring_from (the url) (length (the (path route))))
         else url)
      else url)"

definition createProxy :: "(string \<Rightarrow> string + string) \<Rightarrow> string \<Rightarrow> string + bool" where
  \<comment> \<open>the error thrown by \<open>new URL(target)\<close>, or a proxy, given by \<open>isHttps\<close>, which
      chooses its connection pool\<close>
  "createProxy newURL tgt =
     (case newURL tgt of
        Inl msg \<Rightarrow> Inl msg
      | Inr protocol \<Rightarrow> Inr (protocol = ''https:''))"

definition proxyRequest ::
  "(string \<Rightarrow> string + string) \<Rightarrow> RouteConfig \<Rightarrow> string option \<Rightarrow> string + Handled" where
  \<comment> \<open>\<open>Inl\<close>: the promise is rejected with an error of that message\<close>
  "proxyRequest newURL route url =
     (let finalUrl = rewriteUrl route url
      in case createProxy newURL (target route) of
           Inl msg \<Rightarrow> Inl msg
         | Inr isHttps \<Rightarrow> Inr (Proxied (target route) finalUrl))"

definition handleError :: "string \<Rightarrow> string \<Rightarrow> Handled" where
  \<comment> \<open>no header has been sent when \<open>handleRequest\<close> reaches it\<close>
  "handleError tid msg =
     Responded 500 (JObj [(''error'', JStr ''Internal server error''), (''traceId'', JStr tid),
                          (''message'', JStr msg)])"

definition handleRequest ::
  "(string \<Rightarrow> string + string) \<Rightarrow> Routes \<Rightarrow> string option \<Rightarrow> string option \<Rightarrow> string
     \<Rightarrow> Handled" where
  \<comment> \<open>the routing decision of \<open>handleRequest\<close>; \<open>tid\<close> is the id of the trace it started.
      \<open>!route.enabled\<close> holds for \<open>undefined\<close> and for \<open>false\<close>\<close>
  "handleRequest newURL routes host url tid =
     (let reqDomain = extractDomain host
      in case findRoute routes reqDomain url of
           None \<Rightarrow> handleNotFound routes tid reqDomain
         | Some route \<Rightarrow>
             if enabled route \<noteq> Some True then handleDisabled tid reqDomain
             else (case proxyRequest newURL route url of
                     Inl msg \<Rightarrow> handleError tid msg
                   | Inr h \<Rightarrow> h))"

text \<open>
  A parser for the examples: it accepts what begins with \<open>http://\<close> or \<open>https://\<close> and
  throws \<open>Invalid URL\<close> for anything else.
\<close>

definition exampleURL :: "string \<Rightarrow> string + string" where
  "exampleURL s =
     (if take 7 s = ''http://'' then Inr ''http:''
      else if take 8 s = ''https://'' then Inr ''https:''
      else Inl ''Invalid URL'')"

section \<open>Header masking (trace-manager.ts, body-capture.ts)\<close>

definition authPrefixes :: "string list" where
  "authPrefixes = [''bearer '', ''basic '', ''digest '', ''apikey '', ''token '']"

fun splitAuthPrefix :: "string list \<Rightarrow> string \<Rightarrow> string \<times> string" where
  \<comment> \<open>the loop over \<open>authPrefixes\<close> with its \<open>break\<close>: the pair \<open>(prefix, actualValue)\<close>\<close>
  "splitAuthPrefix [] v = ([], v)"
| "splitAuthPrefix (authPrefix # rest) v =
     (if startsWith (toLowerCase v) authPrefix
      then (substring v 0 (length authPrefix), substring_from v (length authPrefix))
      else splitAuthPrefix rest v)"

definition maskSensitiveValue :: "string \<Rightarrow> string" where
  "maskSensitiveValue v =
     (if v = [] then ''[EMPTY]''
      else
        let (prefix, actualValue) = splitAuthPrefix authPrefixes v in
        if length actualValue = 0 then prefix @ ''[EMPTY]''
        else
          let showLength = min (length actualValue div 4) 8 in
          if showLength = 0 then prefix @ ''[REDACTED]''
          else
            let visiblePart = substring actualValue 0 showLength;
                maskedLength = length actualValue - showLength;
                mask = repeat_str ''*'' (min maskedLength 20)
            in prefix @ visiblePart @ mask @
               (if maskedLength > 20 then ''...+'' @ num_to_string (maskedLength - 20) else []))"

section \<open>Log rotation (log-rotation.ts)\<close>

text \<open>
  The file system is a map from path to content. Data handed to \<open>LogRotation.write\<close> is modelled as
  its UTF-8 encoding, one \<^typ>\<open>char\<close> per byte, so \<open>Buffer.byteLength(data, 'utf8')\<close> is
  \<open>length\<close>. A write stream is modelled by the path it was opened on, and a write to it
  as an append to the file at that path at once. A file operation that fails in the
  source is caught there and changes nothing. Directories are not modelled. The numbers
  of the configuration are naturals; an omitted one is given as 0, which is falsy too.
\<close>

type_synonym FileSystem = "string \<rightharpoonup> string"

definition fs_unlink :: "string \<Rightarrow> FileSystem \<Rightarrow> FileSystem" where
  \<comment> \<open>\<open>try { await fs.unlink(p) } catch {}\<close>\<close>
  "fs_unlink p fs = fs(p := None)"

definition fs_rename :: "string \<Rightarrow> string \<Rightarrow> FileSystem \<Rightarrow> FileSystem" where
  \<comment> \<open>\<open>try { await fs.rename(a, b) } catch {}\<close>: nothing happens when \<open>a\<close> does not exist\<close>
  "fs_rename a b fs = (case fs a of None \<Rightarrow> fs | Some c \<Rightarrow> (fs(a := None))(b \<mapsto> c))"

definition fs_append :: "string \<Rightarrow> string \<Rightarrow> FileSystem \<Rightarrow> FileSystem" where
  \<comment> \<open>appending to a file, which is created when it does not exist\<close>
  "fs_append p bytes fs = fs(p \<mapsto> (case fs p of None \<Rightarrow> bytes | Some c \<Rightarrow> c @ bytes))"

record LogRotationConfig =
  maxFileSize :: nat
  maxFiles :: nat
  compress :: bool

record LogRotation =
  logPath :: string
  config :: LogRotationConfig
  writeStream :: "string option"
  currentSize :: nat

definition newLogRotation :: "string \<Rightarrow> nat \<Rightarrow> nat \<Rightarrow> bool option \<Rightarrow> LogRotation" where
  \<comment> \<open>the constructor: \<open>config.maxFileSize || 10 * 1024 * 1024\<close>, \<open>config.maxFiles || 5\<close>,
      \<open>config.compress || false\<close>\<close>
  "newLogRotation p mfs mf cmp =
     \<lparr>logPath = p,
      config = \<lparr>maxFileSize = (if mfs = 0 then 10 * 1024 * 1024 else mfs),
                maxFiles = (if mf = 0 then 5 else mf),
                compress = (case cmp of None \<Rightarrow> False | Some b \<Rightarrow> b)\<rparr>,
      writeStream = None,
      currentSize = 0\<rparr>"

definition initialize :: "FileSystem \<times> LogRotation \<Rightarrow> FileSystem \<times> LogRotation" where
  \<comment> \<open>the size of the existing file, or 0; then a stream opened with flag \<open>a\<close>\<close>
  "initialize s =
     (let fs = fst s; rot = snd s;
          size = (case fs (logPath rot) of None \<Rightarrow> 0 | Some c \<Rightarrow> length c)
      in (fs_append (logPath rot) [] fs,
          rot\<lparr>currentSize := size, writeStream := Some (logPath rot)\<rparr>))"

definition backupName :: "string \<Rightarrow> nat \<Rightarrow> string" where
  \<comment> \<open>the template \<open>`${baseName}.${i}`\<close>\<close>
  "backupName baseName i = baseName @ ''.'' @ num_to_string i"

fun rotateNumbered :: "string \<Rightarrow> nat \<Rightarrow> FileSystem \<Rightarrow> FileSystem" where
  \<comment> \<open>the loop \<open>for (let i = maxFiles - 1; i >= 1; i--)\<close>, entered with the current \<open>i\<close>\<close>
  "rotateNumbered baseName 0 fs = fs"
| "rotateNumbered baseName (Suc j) fs =
     (let i = Suc j;
          currentFile = (if i = 1 then baseName else backupName baseName i);
          nextFile = backupName baseName (i + 1)
      in rotateNumbered baseName j (fs_rename currentFile nextFile fs))"

definition compressRotatedFiles :: "FileSystem \<Rightarrow> FileSystem" where
  \<comment> \<open>a placeholder in the source: it does nothing\<close>
  "compressRotatedFiles fs = fs"

definition rotateFiles :: "LogRotation \<Rightarrow> FileSystem \<Rightarrow> FileSystem" where
  "rotateFiles rot fs =
     (let baseName = logPath rot;
          oldestFile = backupName baseName (maxFiles (config rot));
          fs1 = fs_unlink oldestFile fs;
          fs2 = rotateNumbered baseName (maxFiles (config rot) - 1) fs1
      in if compress (config rot) then compressRotatedFiles fs2 else fs2)"

definition rotate :: "FileSystem \<times> LogRotation \<Rightarrow> FileSystem \<times> LogRotation" where
  \<comment> \<open>the old stream is ended, the files are rotated, a stream is opened on \<open>logPath\<close>
      with flag \<open>w\<close>, which leaves an empty file there\<close>
  "rotate s =
     (let fs = fst s; rot = snd s;
          fs1 = rotateFiles rot fs
      in (fs1(logPath rot \<mapsto> []),
          rot\<lparr>writeStream := Some (logPath rot), currentSize := 0\<rparr>))"

definition rotation_write :: "string \<Rightarrow> FileSystem \<times> LogRotation \<Rightarrow> FileSystem \<times> LogRotation" where
  \<comment> \<open>\<open>LogRotation.write\<close>\<close>
  "rotation_write bytes s =
     (let s1 = (if writeStream (snd s) = None then initialize s else s);
          dataSize = length bytes;
          s2 = (if currentSize (snd s1) + dataSize > maxFileSize (config (snd s1))
                then rotate s1 else s1);
          fs2 = fst s2; rot2 = snd s2
      in (fs_append (the (writeStream rot2)) bytes fs2,
          rot2\<lparr>currentSize := currentSize rot2 + dataSize\<rparr>))"

text \<open>A rotation engine with a limit of 10 bytes and 5 files, for the examples.\<close>

definition exampleRotation :: LogRotation where
  "exampleRotation = newLogRotation ''proxy.log'' 10 5 None"

section \<open>Log streamer (log-streamer.ts)\<close>

record LogEntry =
  timestamp :: int
  level :: LogLevel
  traceId :: string
  message :: string
  domain :: "string option"
  data :: "json option"

record LogStreamOptions =
  so_level :: "LogLevel option"
  so_domain :: "string option"
  so_json :: bool        \<comment> \<open>\<open>format === 'json'\<close>\<close>
  so_follow :: bool

text \<open>
  A connected WebSocket client: whether its \<open>readyState\<close> is \<open>OPEN\<close>, the options stored on
  it, and the entries sent to it so far (each stands for the message that
  \<open>formatLogForClient\<close> makes of it). A \<open>send\<close> that throws is not modelled.
\<close>

record StreamClient =
  readyOpen :: bool
  streamOptions :: "LogStreamOptions option"
  delivered :: "LogEntry list"

record LogStreamer =
  clients :: "StreamClient list"
  logFile :: "string option"
  logRotation :: "LogRotation option"
  logBuffer :: "LogEntry list"
  files :: FileSystem

definition maxBufferSize :: nat where
  "maxBufferSize = 1000"

definition newLogStreamer ::
  "FileSystem \<Rightarrow> string option \<Rightarrow> (nat \<times> nat \<times> bool option) option \<Rightarrow> LogStreamer" where
  \<comment> \<open>the constructor; the rotation engine exists when \<open>logFile && rotationConfig\<close>\<close>
  "newLogStreamer fs lf rotationConfig =
     \<lparr>clients = [],
      logFile = lf,
      logRotation =
        (case rotationConfig of
           None \<Rightarrow> None
         | Some (mfs, mf, cmp) \<Rightarrow>
             if truthy lf then Some (newLogRotation (the lf) mfs mf cmp) else None),
      logBuffer = [],
      files = fs\<rparr>"

definition indexOf :: "'a list \<Rightarrow> 'a \<Rightarrow> int" where
  \<comment> \<open>\<open>xs.indexOf(x)\<close>: the first position of \<open>x\<close>, or -1\<close>
  "indexOf xs x = (if x \<in> set xs then int (length (takeWhile (\<lambda>y. y \<noteq> x) xs)) else - 1)"

definition levels :: "LogLevel list" where
  "levels = [LError, LWarn, LInfo, LDebug]"

definition shouldIncludeLog :: "LogEntry \<Rightarrow> LogStreamOptions \<Rightarrow> bool" where
  "shouldIncludeLog entry options =
     (if so_level options \<noteq> None \<and>
         indexOf levels (level entry) > indexOf levels (the (so_level options)) then False
      else if truthy (so_domain options) \<and> domain entry \<noteq> so_domain options then False
      else True)"

definition defaultStreamOptions :: LogStreamOptions where
  \<comment> \<open>the \<open>{}\<close> of \<open>streamOptions || {}\<close>\<close>
  "defaultStreamOptions = \<lparr>so_level = None, so_domain = None, so_json = False, so_follow = True\<rparr>"

definition broadcastToClients :: "LogEntry \<Rightarrow> StreamClient list \<Rightarrow> StreamClient list" where
  \<comment> \<open>clients that are not open are dropped; the others get the entry when their filters
      accept it\<close>
  "broadcastToClients entry cs =
     map (\<lambda>c. let options = (case streamOptions c of None \<Rightarrow> defaultStreamOptions | Some opts \<Rightarrow> opts)
               in if shouldIncludeLog entry options then c\<lparr>delivered := delivered c @ [entry]\<rparr> else c)
         (filter readyOpen cs)"

definition writeToFile :: "(LogEntry \<Rightarrow> string) \<Rightarrow> LogEntry \<Rightarrow> LogStreamer \<Rightarrow> LogStreamer" where
  \<comment> \<open>\<open>stringify\<close> is \<open>JSON.stringify\<close> on entries\<close>
  "writeToFile stringify entry st =
     (if \<not> truthy (logFile st) then st
      else
        let logLine = stringify entry @ [CHR 0x0A]
        in case logRotation st of
             Some rot \<Rightarrow>
               (let r = rotation_write logLine (files st, rot)
                in st\<lparr>files := fst r, logRotation := Some (snd r)\<rparr>)
           | None \<Rightarrow> st\<lparr>files := fs_append (the (logFile st)) logLine (files st)\<rparr>)"

definition streamLog :: "(LogEntry \<Rightarrow> string) \<Rightarrow> LogEntry \<Rightarrow> LogStreamer \<Rightarrow> LogStreamer" where
  "streamLog stringify entry st =
     (let pushed = logBuffer st @ [entry];
          st1 = st\<lparr>logBuffer := (if length pushed > maxBufferSize then tl pushed else pushed)\<rparr>;
          st2 = (if truthy (logFile st1) then writeToFile stringify entry st1 else st1)
      in st2\<lparr>clients := broadcastToClients entry (clients st2)\<rparr>)"

text \<open>Entries told apart by their timestamps, for the examples.\<close>

definition numberedEntry :: "nat \<Rightarrow> LogEntry" where
  "numberedEntry n = \<lparr>timestamp = int n, level = LInfo, traceId = ''SYSTEM'', message = ''entry'',
     domain = None, data = None\<rparr>"

section \<open>Logger (logger.ts)\<close>

datatype ConsoleMethod = ConsoleError | ConsoleWarn | ConsoleDebug | ConsoleLog

text \<open>
  The logger holds the streamer it was given; the lines it prints are kept as the list
  \<open>console\<close>, each with the console method used and the entry that \<open>formatLogEntry\<close>
  formatted.
\<close>

record Logger =
  globalLevel :: LogLevel
  domainLevels :: "string \<rightharpoonup> LogLevel"
  streamer :: "LogStreamer option"
  console :: "(ConsoleMethod \<times> LogEntry) list"

definition newLogger :: "LogLevel \<Rightarrow> Logger" where
  "newLogger lvl = \<lparr>globalLevel = lvl, domainLevels = Map.empty, streamer = None, console = []\<rparr>"

definition setStreamer :: "LogStreamer \<Rightarrow> Logger \<Rightarrow> Logger" where
  "setStreamer st lg = lg\<lparr>streamer := Some st\<rparr>"

definition setGlobalLevel :: "LogLevel \<Rightarrow> Logger \<Rightarrow> Logger" where
  "setGlobalLevel lvl lg = lg\<lparr>globalLevel := lvl\<rparr>"

definition setDomainLevel :: "string \<Rightarrow> LogLevel \<Rightarrow> Logger \<Rightarrow> Logger" where
  "setDomainLevel d lvl lg = lg\<lparr>domainLevels := (domainLevels lg)(d \<mapsto> lvl)\<rparr>"

definition removeDomainLevel :: "string \<Rightarrow> Logger \<Rightarrow> Logger" where
  "removeDomainLevel d lg = lg\<lparr>domainLevels := (domainLevels lg)(d := None)\<rparr>"

definition targetLevel :: "Logger \<Rightarrow> string option \<Rightarrow> LogLevel" where
  \<comment> \<open>\<open>domain && this.domainLevels.has(domain) ? this.domainLevels.get(domain)! : this.globalLevel\<close>\<close>
  "targetLevel lg d =
     (if truthy d \<and> domainLevels lg (the d) \<noteq> None
      then the (domainLevels lg (the d)) else globalLevel lg)"

definition shouldLog :: "Logger \<Rightarrow> LogLevel \<Rightarrow> string option \<Rightarrow> bool" where
  "shouldLog lg lvl d =
     (if targetLevel lg d = LNone then False
      else
        let targetIndex = indexOf levels (targetLevel lg d);
            messageIndex = indexOf levels lvl
        in messageIndex \<le> targetIndex)"

definition consoleMethod :: "LogLevel \<Rightarrow> ConsoleMethod" where
  \<comment> \<open>the \<open>switch (level)\<close> of \<open>log\<close>\<close>
  "consoleMethod lvl =
     (case lvl of LError \<Rightarrow> ConsoleError | LWarn \<Rightarrow> ConsoleWarn | LDebug \<Rightarrow> ConsoleDebug
      | _ \<Rightarrow> ConsoleLog)"

definition log ::
  "(LogEntry \<Rightarrow> string) \<Rightarrow> int \<Rightarrow> LogLevel \<Rightarrow> string \<Rightarrow> string \<Rightarrow> string option \<Rightarrow> json option
     \<Rightarrow> Logger \<Rightarrow> Logger" where
  \<comment> \<open>\<open>now\<close> is \<open>Date.now()\<close>\<close>
  "log stringify now lvl msg tid d dat lg =
     (if \<not> shouldLog lg lvl d then lg
      else
        let entry = \<lparr>timestamp = now, level = lvl, traceId = tid, message = msg,
                     domain = d, data = dat\<rparr>;
            lg1 = (case streamer lg of
                     Some st \<Rightarrow> lg\<lparr>streamer := Some (streamLog stringify entry st)\<rparr>
                   | None \<Rightarrow> lg)
        in lg1\<lparr>console := console lg1 @ [(consoleMethod lvl, entry)]\<rparr>)"

definition spec_rank :: "LogLevel \<Rightarrow> nat" where
  \<comment> \<open>the ranking of the specification, \<open>none < error < warn < info < debug\<close>, for
      comparison with \<open>shouldLog\<close>\<close>
  "spec_rank lvl = (case lvl of LNone \<Rightarrow> 0 | LError \<Rightarrow> 1 | LWarn \<Rightarrow> 2 | LInfo \<Rightarrow> 3 | LDebug \<Rightarrow> 4)"

section \<open>Trace manager (trace-manager.ts)\<close>

text \<open>
  The fields of \<open>RequestTrace\<close> carry the prefix \<open>tr_\<close>; \<open>tr_timestamp\<close> is the start time and
  \<open>tr_duration\<close> the duration in milliseconds. Times are integers, the values of
  \<open>Date.now()\<close>, which every operation that reads the clock takes as its argument \<open>now\<close>.
\<close>

datatype HeaderValue = Single string | Multi "string list"

type_synonym IncomingHeaders = "(string \<times> HeaderValue) list"

record IncomingMessage =
  req_method :: "string option"
  req_url :: "string option"
  req_headers :: IncomingHeaders

record RequestTrace =
  tr_id :: string
  tr_timestamp :: int
  tr_method :: string
  tr_url :: string
  tr_headers :: "(string \<times> string) list"
  tr_domain :: string
  tr_target :: "string option"
  tr_duration :: "int option"
  tr_statusCode :: "int option"
  tr_error :: "string option"
  tr_requestBody :: "string option"
  tr_responseHeaders :: "(string \<times> string) list option"
  tr_responseBody :: "string option"

text \<open>
  The manager's map of traces, and the callbacks that \<open>setTimeout\<close> holds for it: each with
  the time it is due and the id it deletes.
\<close>

record TraceManager =
  traces :: "string \<rightharpoonup> RequestTrace"
  timers :: "(int \<times> string) list"

definition newTraceManager :: TraceManager where
  "newTraceManager = \<lparr>traces = Map.empty, timers = []\<rparr>"

definition str_includes :: "string \<Rightarrow> string \<Rightarrow> bool" where
  \<comment> \<open>\<open>s.includes(sub)\<close>\<close>
  "str_includes s sub = list_ex (\<lambda>n. startsWith (drop n s) sub) [0..<Suc (length s)]"

fun join_str :: "string \<Rightarrow> string list \<Rightarrow> string" where
  \<comment> \<open>\<open>xs.join(sep)\<close>\<close>
  "join_str sep [] = []"
| "join_str sep [x] = x"
| "join_str sep (x # y # ys) = x @ sep @ join_str sep (y # ys)"

definition sensitiveHeaders :: "string list" where
  "sensitiveHeaders = [''authorization'', ''cookie'', ''x-api-key'', ''x-auth-token'',
     ''x-access-token'', ''proxy-authorization'']"

definition sanitizeHeader :: "string \<times> HeaderValue \<Rightarrow> (string \<times> string) option" where
  \<comment> \<open>one iteration of the loop of \<open>sanitizeHeaders\<close>: nothing for a falsy value\<close>
  "sanitizeHeader kv =
     (let key = fst kv;
          truthy_value = (case snd kv of Single s \<Rightarrow> s \<noteq> [] | Multi vs \<Rightarrow> True);
          headerValue = (case snd kv of Single s \<Rightarrow> s | Multi vs \<Rightarrow> join_str '', '' vs);
          isSensitive = list_ex (\<lambda>sensitive. str_includes (toLowerCase key) sensitive) sensitiveHeaders
      in if truthy_value
         then Some (key, if isSensitive then maskSensitiveValue headerValue else headerValue)
         else None)"

definition sanitizeHeaders :: "IncomingHeaders \<Rightarrow> (string \<times> string) list" where
  "sanitizeHeaders headers = List.map_filter sanitizeHeader headers"

definition header_string :: "IncomingHeaders \<Rightarrow> string \<Rightarrow> string option" where
  \<comment> \<open>a header that Node delivers as one string, such as \<open>host\<close>\<close>
  "header_string headers name =
     (case map_of headers name of Some (Single s) \<Rightarrow> Some s | _ \<Rightarrow> None)"

definition startTrace ::
  "string \<Rightarrow> int \<Rightarrow> IncomingMessage \<Rightarrow> string option \<Rightarrow> TraceManager
     \<Rightarrow> RequestTrace \<times> TraceManager" where
  \<comment> \<open>\<open>tid\<close> is the result of \<open>this.extractTraceId(req)\<close>\<close>
  "startTrace tid now req requestBody tm =
     (let url = (if truthy (req_url req) then the (req_url req) else ''/'');
          host = header_string (req_headers req) ''host'';
          dm = (if truthy host then the host else ''unknown'');
          trace = \<lparr>tr_id = tid,
                   tr_timestamp = now,
                   tr_method = (if truthy (req_method req) then the (req_method req) else ''GET''),
                   tr_url = url,
                   tr_headers = sanitizeHeaders (req_headers req),
                   tr_domain = takeWhile (\<lambda>c. c \<noteq> CHR '':'') dm,
                   tr_target = None, tr_duration = None, tr_statusCode = None, tr_error = None,
                   tr_requestBody = requestBody,
                   tr_responseHeaders = None, tr_responseBody = None\<rparr>
      in (trace, tm\<lparr>traces := (traces tm)(tid \<mapsto> trace)\<rparr>))"

text \<open>
  The \<open>updates\<close> of \<open>updateTrace\<close>, a \<open>Partial<RequestTrace>\<close>, are the list of the
  properties the object has, each with its value; an optional property can be present
  with the value \<open>undefined\<close>.
\<close>

datatype TraceUpdate =
    U_id string | U_timestamp int | U_method string | U_url string
  | U_headers "(string \<times> string) list" | U_domain string
  | U_target "string option" | U_duration "int option" | U_statusCode "int option"
  | U_error "string option" | U_requestBody "string option"
  | U_responseHeaders "(string \<times> string) list option" | U_responseBody "string option"

fun assignUpdate :: "TraceUpdate \<Rightarrow> RequestTrace \<Rightarrow> RequestTrace" where
  \<comment> \<open>one property copied by \<open>Object.assign(trace, updates)\<close>\<close>
  "assignUpdate (U_id v) t = t\<lparr>tr_id := v\<rparr>"
| "assignUpdate (U_timestamp v) t = t\<lparr>tr_timestamp := v\<rparr>"
| "assignUpdate (U_method v) t = t\<lparr>tr_method := v\<rparr>"
| "assignUpdate (U_url v) t = t\<lparr>tr_url := v\<rparr>"
| "assignUpdate (U_headers v) t = t\<lparr>tr_headers := v\<rparr>"
| "assignUpdate (U_domain v) t = t\<lparr>tr_domain := v\<rparr>"
| "assignUpdate (U_target v) t = t\<lparr>tr_target := v\<rparr>"
| "assignUpdate (U_duration v) t = t\<lparr>tr_duration := v\<rparr>"
| "assignUpdate (U_statusCode v) t = t\<lparr>tr_statusCode := v\<rparr>"
| "assignUpdate (U_error v) t = t\<lparr>tr_error := v\<rparr>"
| "assignUpdate (U_requestBody v) t = t\<lparr>tr_requestBody := v\<rparr>"
| "assignUpdate (U_responseHeaders v) t = t\<lparr>tr_responseHeaders := v\<rparr>"
| "assignUpdate (U_responseBody v) t = t\<lparr>tr_responseBody := v\<rparr>"

fun updates_statusCode :: "TraceUpdate list \<Rightarrow> int option" where
  \<comment> \<open>\<open>updates.statusCode\<close>\<close>
  "updates_statusCode [] = None"
| "updates_statusCode (U_statusCode v # us) =
     (if list_ex (\<lambda>u. case u of U_statusCode w \<Rightarrow> True | _ \<Rightarrow> False) us
      then updates_statusCode us else v)"
| "updates_statusCode (u # us) = updates_statusCode us"

definition updateTrace ::
  "int \<Rightarrow> string \<Rightarrow> TraceUpdate list \<Rightarrow> TraceManager \<Rightarrow> RequestTrace option \<times> TraceManager" where
  "updateTrace now tid updates tm =
     (case traces tm tid of
        None \<Rightarrow> (None, tm)
      | Some trace \<Rightarrow>
          let t1 = fold assignUpdate updates trace;
              t2 = (if updates_statusCode updates \<noteq> None
                    then t1\<lparr>tr_duration := Some (now - tr_timestamp t1)\<rparr> else t1)
          in (Some t2, tm\<lparr>traces := (traces tm)(tid \<mapsto> t2)\<rparr>))"

definition finishTrace ::
  "int \<Rightarrow> string \<Rightarrow> int \<Rightarrow> string option \<Rightarrow> (string \<times> string) list option \<Rightarrow> string option
     \<Rightarrow> TraceManager \<Rightarrow> RequestTrace option \<times> TraceManager" where
  \<comment> \<open>the callback that deletes the trace is due 60000 ms after the call\<close>
  "finishTrace now tid statusCode err responseHeaders responseBody tm =
     (case traces tm tid of
        None \<Rightarrow> (None, tm)
      | Some trace \<Rightarrow>
          let t1 = trace\<lparr>tr_statusCode := Some statusCode\<rparr>;
              t2 = t1\<lparr>tr_duration := Some (now - tr_timestamp t1)\<rparr>;
              t3 = (if truthy err then t2\<lparr>tr_error := err\<rparr> else t2);
              t4 = (if responseHeaders \<noteq> None then t3\<lparr>tr_responseHeaders := responseHeaders\<rparr>
                    else t3);
              t5 = (if truthy responseBody then t4\<lparr>tr_responseBody := responseBody\<rparr> else t4)
          in (Some t5,
              tm\<lparr>traces := (traces tm)(tid \<mapsto> t5),
                 timers := timers tm @ [(now + 60000, tid)]\<rparr>))"

definition runTimers :: "int \<Rightarrow> TraceManager \<Rightarrow> TraceManager" where
  \<comment> \<open>the event loop at time \<open>now\<close>: every callback that is due runs, in order, and
      deletes its trace\<close>
  "runTimers now tm =
     tm\<lparr>traces := fold (\<lambda>t m. m(snd t := None)) (filter (\<lambda>t. fst t \<le> now) (timers tm)) (traces tm),
        timers := filter (\<lambda>t. \<not> fst t \<le> now) (timers tm)\<rparr>"

definition getTrace :: "string \<Rightarrow> TraceManager \<Rightarrow> RequestTrace option" where
  "getTrace tid tm = traces tm tid"

definition cleanup :: "TraceManager \<Rightarrow> TraceManager" where
  "cleanup tm = tm\<lparr>traces := Map.empty\<rparr>"

text \<open>A request for \<open>GET /\<close> on \<open>api.local\<close>, for the examples.\<close>

definition exampleRequest :: IncomingMessage where
  "exampleRequest = \<lparr>req_method = Some ''GET'', req_url = Some ''/'',
     req_headers = [(''host'', Single ''api.local:8080''),
                    (''authorization'', Single ''Bearer abcdefghijklmnopqrstuvwxyz0123456789'')]\<rparr>"

definition startedExample :: "RequestTrace \<times> TraceManager" where
  "startedExample = startTrace ''a'' 0 exampleRequest None newTraceManager"

section \<open>Upstream errors (proxy-server.ts, the proxy error handlers)\<close>

definition warn ::
  "(LogEntry \<Rightarrow> string) \<Rightarrow> int \<Rightarrow> string \<Rightarrow> string \<Rightarrow> string option \<Rightarrow> json option
     \<Rightarrow> Logger \<Rightarrow> Logger" where
  "warn stringify now msg tid d dat lg = log stringify now LWarn msg tid d dat lg"

definition error ::
  "(LogEntry \<Rightarrow> string) \<Rightarrow> int \<Rightarrow> string \<Rightarrow> string \<Rightarrow> string option \<Rightarrow> json option
     \<Rightarrow> Logger \<Rightarrow> Logger" where
  "error stringify now msg tid d dat lg = log stringify now LError msg tid d dat lg"

definition info ::
  "(LogEntry \<Rightarrow> string) \<Rightarrow> int \<Rightarrow> string \<Rightarrow> string \<Rightarrow> string option \<Rightarrow> json option
     \<Rightarrow> Logger \<Rightarrow> Logger" where
  "info stringify now msg tid d dat lg = log stringify now LInfo msg tid d dat lg"

definition debug ::
  "(LogEntry \<Rightarrow> string) \<Rightarrow> int \<Rightarrow> string \<Rightarrow> string \<Rightarrow> string option \<Rightarrow> json option
     \<Rightarrow> Logger \<Rightarrow> Logger" where
  "debug stringify now msg tid d dat lg = log stringify now LDebug msg tid d dat lg"

text \<open>
  The error object of a proxy \<open>error\<close> event, of type \<open>any\<close> in the source: its message
  and its code, if it has one. The response carries what \<open>writeHead\<close> and \<open>end\<close> put on
  it. The promise is the one \<open>proxyRequest\<close> returns.
\<close>

record ProxyError =
  err_message :: string
  err_code :: "string option"

record ServerResponse =
  headersSent :: bool
  res_status :: "nat option"
  res_headers :: "(string \<times> string) list"
  res_body :: "json option"

datatype PromiseState = Pending | Resolved | Rejected

definition resolve :: "PromiseState \<Rightarrow> PromiseState" where
  \<comment> \<open>\<open>resolve()\<close>: a settled promise stays as it is\<close>
  "resolve p = (if p = Pending then Resolved else p)"

record ProxyWorld =
  traceManager :: TraceManager
  logger :: Logger
  res :: ServerResponse
  promise :: PromiseState

definition json_of_code :: "string option \<Rightarrow> json" where
  "json_of_code c = (case c of None \<Rightarrow> JUndefined | Some s \<Rightarrow> JStr s)"

definition connectionLost :: "ProxyError \<Rightarrow> bool" where
  \<comment> \<open>\<open>error.code === 'ECONNRESET' || error.code === 'ECONNREFUSED'\<close>\<close>
  "connectionLost err = (err_code err = Some ''ECONNRESET'' \<or> err_code err = Some ''ECONNREFUSED'')"

definition fallbackErrorHandler ::
  "(LogEntry \<Rightarrow> string) \<Rightarrow> int \<Rightarrow> ProxyError \<Rightarrow> RouteConfig \<Rightarrow> ProxyWorld \<Rightarrow> ProxyWorld" where
  \<comment> \<open>the handler that \<open>createProxy\<close> registers first\<close>
  "fallbackErrorHandler stringify now err route w =
     (if connectionLost err
      then w\<lparr>logger := warn stringify now ''Network connection issue'' ''SYSTEM'' None
                 (Some (JObj [(''error'', JStr (err_message err)),
                              (''code'', json_of_code (err_code err)),
                              (''target'', JStr (target route))]))
                 (logger w)\<rparr>
      else w)"

definition proxyErrorHandler ::
  "(LogEntry \<Rightarrow> string) \<Rightarrow> int \<Rightarrow> int \<Rightarrow> ProxyError \<Rightarrow> RequestTrace \<Rightarrow> RouteConfig
     \<Rightarrow> ProxyWorld \<Rightarrow> ProxyWorld" where
  \<comment> \<open>the handler of \<open>proxyRequest\<close>; \<open>now_finish\<close> and \<open>now_log\<close> are the clock readings
      of \<open>finishTrace\<close> and of the logger\<close>
  "proxyErrorHandler stringify now_finish now_log err trace route w =
     (let tm1 = snd (finishTrace now_finish (tr_id trace) 500 (Some (err_message err)) None None
                       (traceManager w));
          dat = Some (JObj [(''error'', JStr (err_message err)),
                            (''target'', JStr (target route)),
                            (''code'', json_of_code (err_code err))]);
          lg1 = (if connectionLost err
                 then warn stringify now_log ''Target server connection lost'' (tr_id trace)
                        (Some (tr_domain trace)) dat (logger w)
                 else error stringify now_log ''Proxy error'' (tr_id trace)
                        (Some (tr_domain trace)) dat (logger w));
          res1 = (if \<not> headersSent (res w)
                  then (res w)\<lparr>headersSent := True,
                               res_status := Some 502,
                               res_headers := res_headers (res w)
                                 @ [(''Content-Type'', ''application/json'')],
                               res_body := Some (JObj [(''error'', JStr ''Bad Gateway''),
                                            (''message'', JStr ''Target server unavailable''),
                                            (''traceId'', JStr (tr_id trace))])\<rparr>
                  else res w)
      in w\<lparr>traceManager := tm1, logger := lg1, res := res1, promise := resolve (promise w)\<rparr>)"

definition emitProxyError ::
  "(LogEntry \<Rightarrow> string) \<Rightarrow> int \<Rightarrow> int \<Rightarrow> int \<Rightarrow> ProxyError \<Rightarrow> RequestTrace \<Rightarrow> RouteConfig
     \<Rightarrow> ProxyWorld \<Rightarrow> ProxyWorld" where
  \<comment> \<open>the \<open>error\<close> event of the proxy: its listeners run in the order they were added\<close>
  "emitProxyError stringify now0 now_finish now_log err trace route w =
     proxyErrorHandler stringify now_finish now_log err trace route
       (fallbackErrorHandler stringify now0 err route w)"

text \<open>A request in flight: its trace started, nothing sent, the promise pending.\<close>

definition exampleWorld :: ProxyWorld where
  "exampleWorld =
     \<lparr>traceManager = snd (startTrace ''a'' 0 exampleRequest None newTraceManager),
      logger = newLogger LInfo,
      res = \<lparr>headersSent = False, res_status = None, res_headers = [], res_body = None\<rparr>,
      promise = Pending\<rparr>"

definition refusedError :: ProxyError where
  "refusedError = \<lparr>err_message = ''connect ECONNREFUSED 127.0.0.1:3001'',
                    err_code = Some ''ECONNREFUSED''\<rparr>"

definition parseError :: ProxyError where
  "parseError = \<lparr>err_message = ''Parse Error'', err_code = Some ''HPE_INVALID_CONSTANT''\<rparr>"

section \<open>Lemmas\<close>

subsection \<open>Header masking\<close>









subsection \<open>Route resolver\<close>

lemma startsWith_prefix: "startsWith s p \<longleftrightarrow> prefix p s"
  unfolding startsWith_def
  by (metis append_eq_conv_conj prefix_def)

lemma endsWith_suffix: "endsWith s p \<longleftrightarrow> suffix p s"
  unfolding endsWith_def
  by (metis append_eq_conv_conj append_take_drop_id diff_add_inverse2 length_append length_drop suffix_def suffix_length_le)

lemma hd_sort_key_least:
  assumes "xs \<noteq> []"
  shows "hd (sort_key f xs) \<in> set xs \<and> (\<forall>x \<in> set xs. f (hd (sort_key f xs)) \<le> f x)"
proof -
  obtain y ys where ys: "sort_key f xs = y # ys"
    using assms by (metis length_0_conv length_sort list.exhaust)
  have "y \<in> set xs"
    using ys by (metis list.set_intros(1) set_sort)
  moreover have "\<forall>x \<in> set xs. f y \<le> f x"
  proof
    fix x assume "x \<in> set xs"
    then have "x \<in> set (y # ys)" using ys by (metis set_sort)
    moreover have "sorted (map f (y # ys))" using ys by (metis sorted_sort_key)
    ultimately show "f y \<le> f x" by auto
  qed
  ultimately show ?thesis using ys by simp
qed

lemma set_map_filter_routeCandidate:
  "set (List.map_filter g xs) = {c. \<exists>e \<in> set xs. g e = Some c}"
  by (induction xs) (auto split: option.splits)

lemma findRoute_None:
  "findRoute routes d url = None \<longleftrightarrow> (\<forall>e \<in> set routes. routeCandidate d url e = None)"
proof -
  have "List.map_filter (routeCandidate d url) routes = [] \<longleftrightarrow> (\<forall>e \<in> set routes. routeCandidate d url e = None)"
    by (induction routes) (auto split: option.splits)
  then show ?thesis by (simp add: findRoute_def Let_def)
qed

lemma findRoute_Some:
  assumes "findRoute routes d url = Some r"
  shows "\<exists>e \<in> set routes. \<exists>s. routeCandidate d url e = Some (r, s) \<and>
           (\<forall>e' \<in> set routes. \<forall>c. routeCandidate d url e' = Some c \<longrightarrow> snd c \<le> s)"
proof -
  define cands where "cands = List.map_filter (routeCandidate d url) routes"
  define best where "best = hd (sort_key (\<lambda>c. - int (snd c)) cands)"
  have ne: "cands \<noteq> []" and r: "r = fst best"
    using assms by (auto simp: findRoute_def Let_def cands_def best_def split: if_splits)
  have mem: "set cands = {c. \<exists>e \<in> set routes. routeCandidate d url e = Some c}"
    by (simp add: cands_def set_map_filter_routeCandidate)
  from hd_sort_key_least[OF ne, of "\<lambda>c. - int (snd c)"]
  have b: "best \<in> set cands" and le: "\<forall>c \<in> set cands. snd c \<le> snd best"
    by (auto simp: best_def)
  from b mem obtain e where e: "e \<in> set routes" "routeCandidate d url e = Some best" by auto
  have "routeCandidate d url e = Some (r, snd best)" using e r by simp
  moreover have "\<forall>e' \<in> set routes. \<forall>c. routeCandidate d url e' = Some c \<longrightarrow> snd c \<le> snd best"
    using le mem by auto
  ultimately show ?thesis using e(1) by blast
qed

lemma routeCandidate_score:
  "routeCandidate d url (k, r) =
     (case matchDomain (fst (splitRouteKey k)) d of
        None \<Rightarrow> None
      | Some base \<Rightarrow>
          if \<not> truthy (pathToMatch k r) then Some (r, base)
          else if truthy url \<and> prefix (the (pathToMatch k r)) (the url)
               then Some (r, base + length (the (pathToMatch k r)))
               else None)"
  by (auto simp: routeCandidate_def Let_def startsWith_prefix split: option.splits)

lemma matchDomain_tiers:
  "matchDomain rd d =
     (if rd = d then Some 1000
      else if prefix ''*.'' rd \<and> suffix (drop 2 rd) d then Some 500
      else None)"
  by (simp add: matchDomain_def Let_def startsWith_prefix endsWith_suffix substring_from_def)

lemma candidate_exact_beats_wildcard:
  assumes "routeCandidate d url (k1, r1) = Some (r1, s1)"
    and "routeCandidate d url (k2, r2) = Some (r2, s2)"
    and "fst (splitRouteKey k1) = d" and "fst (splitRouteKey k2) \<noteq> d"
    and "(if truthy (pathToMatch k1 r1) then length (the (pathToMatch k1 r1)) else 0)
       = (if truthy (pathToMatch k2 r2) then length (the (pathToMatch k2 r2)) else 0)"
  shows "s2 < s1"
  using assms unfolding routeCandidate_score matchDomain_tiers
  by (auto split: if_splits)

lemma candidate_longer_path_wins:
  assumes "routeCandidate d url (k1, r1) = Some (r1, s1)"
    and "routeCandidate d url (k2, r2) = Some (r2, s2)"
    and "matchDomain (fst (splitRouteKey k1)) d = matchDomain (fst (splitRouteKey k2)) d"
    and "(if truthy (pathToMatch k2 r2) then length (the (pathToMatch k2 r2)) else 0)
       < (if truthy (pathToMatch k1 r1) then length (the (pathToMatch k1 r1)) else 0)"
  shows "s2 < s1"
  using assms unfolding routeCandidate_score
  by (auto split: if_splits option.splits)


lemma hd_sort_key_first:
  assumes "xs \<noteq> []"
  shows "hd (sort_key f xs) = hd (filter (\<lambda>y. f y = f (hd (sort_key f xs))) xs)"
proof -
  obtain m ys where ys: "sort_key f xs = m # ys"
    using assms by (metis length_0_conv length_sort list.exhaust)
  have "filter (\<lambda>y. f y = f m) xs = filter (\<lambda>y. f y = f m) (sort_key f xs)"
    by (rule sort_key_stable[symmetric])
  also have "\<dots> = m # filter (\<lambda>y. f y = f m) ys"
    unfolding ys by simp
  finally show ?thesis unfolding ys by simp
qed

lemma findRoute_first_best:
  "findRoute routes d url =
     (let cands = List.map_filter (routeCandidate d url) routes
      in if cands = [] then None
         else Some (fst (hd (filter (\<lambda>c. \<forall>c' \<in> set cands. snd c' \<le> snd c) cands))))"
proof -
  define cands where "cands = List.map_filter (routeCandidate d url) routes"
  define best where "best = hd (sort_key (\<lambda>c. - int (snd c)) cands)"
  show ?thesis
  proof (cases "cands = []")
    case True
    then show ?thesis by (simp add: findRoute_def Let_def cands_def)
  next
    case False
    from hd_sort_key_least[OF False, of "\<lambda>c. - int (snd c)"]
    have b: "best \<in> set cands" and le: "\<forall>c \<in> set cands. snd c \<le> snd best"
      by (auto simp: best_def)
    have "best = hd (filter (\<lambda>y. - int (snd y) = - int (snd best)) cands)"
      unfolding best_def by (rule hd_sort_key_first[OF False])
    also have "filter (\<lambda>y. - int (snd y) = - int (snd best)) cands
             = filter (\<lambda>c. \<forall>c' \<in> set cands. snd c' \<le> snd c) cands"
    proof (rule filter_cong[OF refl])
      fix c assume c: "c \<in> set cands"
      show "(- int (snd c) = - int (snd best)) = (\<forall>c' \<in> set cands. snd c' \<le> snd c)"
        using b le c by (auto simp: order_antisym)
    qed
    finally have "best = hd (filter (\<lambda>c. \<forall>c' \<in> set cands. snd c' \<le> snd c) cands)" .
    then show ?thesis
      using False by (simp add: findRoute_def Let_def cands_def[symmetric] best_def[symmetric])
  qed
qed

subsection \<open>Request handling\<close>

lemma handleRequest_found:
  assumes "findRoute routes (extractDomain host) url = Some route"
  shows "handleRequest newURL routes host url tid =
     (if enabled route \<noteq> Some True
      then Responded 503 (JObj [(''error'', JStr ''Route disabled''),
             (''domain'', JStr (extractDomain host)), (''traceId'', JStr tid)])
      else (case newURL (target route) of
              Inl msg \<Rightarrow> Responded 500 (JObj [(''error'', JStr ''Internal server error''),
                           (''traceId'', JStr tid), (''message'', JStr msg)])
            | Inr protocol \<Rightarrow> Proxied (target route) (rewriteUrl route url)))"
  using assms
  by (simp add: handleRequest_def Let_def handleDisabled_def proxyRequest_def createProxy_def
      handleError_def split: sum.splits)

lemma splitRouteKey_parts:
  "fst (splitRouteKey k) = takeWhile (\<lambda>c. c \<noteq> CHR '':'') k"
  "snd (splitRouteKey k) =
     (if CHR '':'' \<in> set k
      then Some (takeWhile (\<lambda>c. c \<noteq> CHR '':'') (tl (dropWhile (\<lambda>c. c \<noteq> CHR '':'') k)))
      else None)"
proof -
  have "takeWhile (\<lambda>c. c \<noteq> CHR '':'') k = k" if "CHR '':'' \<notin> set k"
    using that by (auto simp: takeWhile_eq_all_conv)
  note tw = this
  show "fst (splitRouteKey k) = takeWhile (\<lambda>c. c \<noteq> CHR '':'') k"
  proof (cases "CHR '':'' \<in> set k")
    case True
    then show ?thesis by (simp add: splitRouteKey_def)
  next
    case False
    then have e: "splitRouteKey k = (k, None)" by (simp add: splitRouteKey_def)
    show ?thesis unfolding e fst_conv tw[OF False] ..
  qed
  show "snd (splitRouteKey k) =
     (if CHR '':'' \<in> set k
      then Some (takeWhile (\<lambda>c. c \<noteq> CHR '':'') (tl (dropWhile (\<lambda>c. c \<noteq> CHR '':'') k)))
      else None)"
    by (simp add: splitRouteKey_def)
qed

lemma truthy_iff: "truthy v \<longleftrightarrow> (\<exists>s. v = Some s \<and> s \<noteq> [])"
  by (cases v) (simp_all add: truthy_def)

lemma pathToMatch_parts:
  "pathToMatch k r =
     (if CHR '':'' \<in> set k \<and>
         takeWhile (\<lambda>c. c \<noteq> CHR '':'') (tl (dropWhile (\<lambda>c. c \<noteq> CHR '':'') k)) \<noteq> []
      then Some (takeWhile (\<lambda>c. c \<noteq> CHR '':'') (tl (dropWhile (\<lambda>c. c \<noteq> CHR '':'') k)))
      else path r)"
  by (simp add: pathToMatch_def js_or_def truthy_def splitRouteKey_parts)

lemma routeCandidate_explicit:
  "routeCandidate d url (k, r) =
     (case matchDomain (takeWhile (\<lambda>c. c \<noteq> CHR '':'') k) d of
        None \<Rightarrow> None
      | Some base \<Rightarrow>
          (case pathToMatch k r of
             None \<Rightarrow> Some (r, base)
           | Some p \<Rightarrow>
               if p = [] then Some (r, base)
               else (case url of
                       None \<Rightarrow> None
                     | Some u \<Rightarrow> if prefix p u then Some (r, base + length p) else None)))"
  by (auto simp: routeCandidate_def Let_def startsWith_prefix truthy_def splitRouteKey_parts
      split: option.splits)

subsection \<open>Logger and log buffer\<close>

lemma indexOf_levels:
  "indexOf levels lvl = (case lvl of LNone \<Rightarrow> - 1 | LError \<Rightarrow> 0 | LWarn \<Rightarrow> 1 | LInfo \<Rightarrow> 2 | LDebug \<Rightarrow> 3)"
  by (cases lvl) (simp_all add: indexOf_def levels_def)

lemma shouldLog_rank:
  "shouldLog lg lvl d \<longleftrightarrow> targetLevel lg d \<noteq> LNone \<and> spec_rank lvl \<le> spec_rank (targetLevel lg d)"
  by (cases lvl; cases "targetLevel lg d") (simp_all add: shouldLog_def indexOf_levels spec_rank_def)

lemma targetLevel_cases:
  "targetLevel lg d =
     (case d of
        None \<Rightarrow> globalLevel lg
      | Some s \<Rightarrow> if s = [] then globalLevel lg
                  else (case domainLevels lg s of None \<Rightarrow> globalLevel lg | Some l \<Rightarrow> l))"
  by (auto simp: targetLevel_def truthy_def split: option.splits)

lemma log_rejected: "\<not> shouldLog lg lvl d \<Longrightarrow> log sf now lvl msg tid d dat lg = lg"
  by (simp add: log_def)

lemma log_accepted:
  assumes "shouldLog lg lvl d"
  shows "console (log sf now lvl msg tid d dat lg)
           = console lg @ [(consoleMethod lvl,
               \<lparr>timestamp = now, level = lvl, traceId = tid, message = msg, domain = d, data = dat\<rparr>)]"
    and "streamer (log sf now lvl msg tid d dat lg)
           = map_option (streamLog sf
               \<lparr>timestamp = now, level = lvl, traceId = tid, message = msg, domain = d, data = dat\<rparr>)
               (streamer lg)"
  using assms by (auto simp: log_def Let_def split: option.splits)

lemma streamLog_logBuffer:
  "logBuffer (streamLog sf e st) =
     (if length (logBuffer st) + 1 > maxBufferSize then tl (logBuffer st @ [e]) else logBuffer st @ [e])"
  by (simp add: streamLog_def writeToFile_def Let_def split: option.splits)

lemma streamLog_bounded:
  "length (logBuffer st) \<le> maxBufferSize \<Longrightarrow> length (logBuffer (streamLog sf e st)) \<le> maxBufferSize"
  by (simp add: streamLog_logBuffer)

lemma drop_window:
  "drop (length (drop (length xs - m) xs @ es) - m) (drop (length xs - m) xs @ es)
     = drop (length (xs @ es) - m) (xs @ es)"
proof (cases "length xs \<le> m")
  case True
  then show ?thesis by simp
next
  case False
  have e1: "drop (length xs - m) xs @ es = drop (length xs - m) (xs @ es)"
    by simp
  have e2: "length (drop (length xs - m) (xs @ es)) - m = length es"
    using False by simp
  have e3: "length es + (length xs - m) = length (xs @ es) - m"
    using False by simp
  show ?thesis
    unfolding e1 e2 drop_drop e3 ..
qed

lemma streamLog_step:
  assumes "length (logBuffer st) \<le> maxBufferSize"
  shows "logBuffer (streamLog sf e st)
     = drop (length (logBuffer st @ [e]) - maxBufferSize) (logBuffer st @ [e])"
proof (cases "length (logBuffer st) + 1 > maxBufferSize")
  case True
  with assms have "length (logBuffer st @ [e]) - maxBufferSize = Suc 0" by simp
  moreover have "drop (Suc 0) (logBuffer st @ [e]) = tl (logBuffer st @ [e])"
    by (simp only: drop_Suc drop_0)
  ultimately show ?thesis using True by (simp only: streamLog_logBuffer if_True)
next
  case False
  then show ?thesis by (simp add: streamLog_logBuffer)
qed

lemma fold_streamLog_buffer:
  "length (logBuffer st) \<le> maxBufferSize \<Longrightarrow>
   logBuffer (fold (streamLog sf) es st)
     = drop (length (logBuffer st @ es) - maxBufferSize) (logBuffer st @ es)"
proof (induction es arbitrary: st)
  case Nil
  then show ?case by simp
next
  case (Cons e es)
  let ?st = "streamLog sf e st"
  have b: "length (logBuffer ?st) \<le> maxBufferSize"
    using Cons.prems by (rule streamLog_bounded)
  have "logBuffer (fold (streamLog sf) (e # es) st)
      = drop (length (logBuffer ?st @ es) - maxBufferSize) (logBuffer ?st @ es)"
    using Cons.IH[OF b] by simp
  also have "\<dots> = drop (length ((logBuffer st @ [e]) @ es) - maxBufferSize) ((logBuffer st @ [e]) @ es)"
    unfolding streamLog_step[OF Cons.prems] by (rule drop_window)
  finally show ?case by simp
qed

lemma fold_streamLog_bounded:
  "length (logBuffer st) \<le> maxBufferSize \<Longrightarrow>
   length (logBuffer (fold (streamLog sf) es st)) \<le> maxBufferSize"
  by (induction es arbitrary: st) (simp_all add: streamLog_bounded)

subsection \<open>Trace manager\<close>

lemma finishTrace_known:
  assumes "traces tm i = Some t"
  shows "fst (finishTrace now i sc err rh rb tm) = traces (snd (finishTrace now i sc err rh rb tm)) i"
    and "map_option tr_duration (fst (finishTrace now i sc err rh rb tm))
           = Some (Some (now - tr_timestamp t))"
    and "map_option tr_timestamp (fst (finishTrace now i sc err rh rb tm)) = Some (tr_timestamp t)"
    and "timers (snd (finishTrace now i sc err rh rb tm)) = timers tm @ [(now + 60000, i)]"
  using assms by (simp_all add: finishTrace_def Let_def)

lemma finishTrace_unknown:
  "traces tm i = None \<Longrightarrow> finishTrace now i sc err rh rb tm = (None, tm)"
  by (simp add: finishTrace_def)

lemma finishTrace_twice:
  assumes "traces tm i = Some t"
  shows "map_option tr_duration
           (fst (finishTrace now2 i sc2 err2 rh2 rb2 (snd (finishTrace now i sc err rh rb tm))))
         = Some (Some (now2 - tr_timestamp t))"
proof -
  let ?tm = "snd (finishTrace now i sc err rh rb tm)"
  obtain t' where t': "fst (finishTrace now i sc err rh rb tm) = Some t'"
    using assms by (simp add: finishTrace_def Let_def)
  have r: "traces ?tm i = Some t'"
    using finishTrace_known(1)[OF assms, of now sc err rh rb] t' by simp
  have ts: "tr_timestamp t' = tr_timestamp t"
    using finishTrace_known(3)[OF assms, of now sc err rh rb] t' by simp
  show ?thesis
    using finishTrace_known(2)[OF r, of now2 sc2 err2 rh2 rb2] ts by simp
qed

lemma fold_assignUpdate_duration:
  "\<forall>v. U_duration v \<notin> set ups \<Longrightarrow> tr_duration (fold assignUpdate ups t) = tr_duration t"
proof (induction ups arbitrary: t)
  case Nil
  then show ?case by simp
next
  case (Cons u ups)
  have "tr_duration (assignUpdate u t) = tr_duration t"
    using Cons.prems by (cases u) auto
  moreover have "\<forall>v. U_duration v \<notin> set ups"
    using Cons.prems by auto
  ultimately show ?case using Cons.IH by simp
qed

lemma updateTrace_statusCode:
  assumes "traces tm i = Some t" and "updates_statusCode ups \<noteq> None"
  shows "map_option tr_duration (fst (updateTrace now i ups tm))
           = Some (Some (now - tr_timestamp (fold assignUpdate ups t)))"
  using assms by (simp add: updateTrace_def Let_def)

lemma updateTrace_plain:
  assumes "traces tm i = Some t" and "updates_statusCode ups = None"
    and "\<forall>v. U_duration v \<notin> set ups"
  shows "map_option tr_duration (fst (updateTrace now i ups tm)) = Some (tr_duration t)"
  using assms by (simp add: updateTrace_def Let_def fold_assignUpdate_duration)

lemma updateTrace_unknown:
  "traces tm i = None \<Longrightarrow> updateTrace now i ups tm = (None, tm)"
  by (simp add: updateTrace_def)

lemma startTrace_fresh:
  "tr_duration (fst (startTrace i now req rb tm)) = None"
  "tr_timestamp (fst (startTrace i now req rb tm)) = now"
  "traces (snd (startTrace i now req rb tm)) i = Some (fst (startTrace i now req rb tm))"
  by (simp_all add: startTrace_def Let_def)

lemma fold_delete:
  "fold (\<lambda>t m. m(snd t := None)) ts m i = (if i \<in> snd ` set ts then None else m i)"
  by (induction ts arbitrary: m) auto

lemma runTimers_retained:
  assumes "\<forall>d \<in> set (timers tm). snd d = i \<longrightarrow> now' < fst d"
  shows "traces (runTimers now' tm) i = traces tm i"
proof -
  have "i \<notin> snd ` set (filter (\<lambda>t. fst t \<le> now') (timers tm))"
    using assms by force
  then show ?thesis by (simp add: runTimers_def fold_delete)
qed

lemma finishTrace_retention:
  assumes "traces tm i = Some t"
    and "\<forall>d \<in> set (timers tm). snd d = i \<longrightarrow> now' < fst d"
    and "now' < now + 60000"
  shows "traces (runTimers now' (snd (finishTrace now i sc err rh rb tm))) i
           = traces (snd (finishTrace now i sc err rh rb tm)) i"
proof (rule runTimers_retained)
  show "\<forall>d \<in> set (timers (snd (finishTrace now i sc err rh rb tm))). snd d = i \<longrightarrow> now' < fst d"
    using assms by (simp add: finishTrace_known(4))
qed


subsection \<open>Upstream errors\<close>

lemma proxyErrorHandler_fields:
  "promise (proxyErrorHandler sf n1 n2 err trace route w) = resolve (promise w)"
  "traceManager (proxyErrorHandler sf n1 n2 err trace route w)
     = snd (finishTrace n1 (tr_id trace) 500 (Some (err_message err)) None None (traceManager w))"
  "logger (proxyErrorHandler sf n1 n2 err trace route w)
     = log sf n2 (if connectionLost err then LWarn else LError)
         (if connectionLost err then ''Target server connection lost'' else ''Proxy error'')
         (tr_id trace) (Some (tr_domain trace))
         (Some (JObj [(''error'', JStr (err_message err)), (''target'', JStr (target route)),
                      (''code'', json_of_code (err_code err))]))
         (logger w)"
  "res (proxyErrorHandler sf n1 n2 err trace route w)
     = (if headersSent (res w) then res w
        else (res w)\<lparr>headersSent := True, res_status := Some 502,
               res_headers := res_headers (res w) @ [(''Content-Type'', ''application/json'')],
               res_body := Some (JObj [(''error'', JStr ''Bad Gateway''),
                                       (''message'', JStr ''Target server unavailable''),
                                       (''traceId'', JStr (tr_id trace))])\<rparr>)"
  by (simp_all add: proxyErrorHandler_def Let_def warn_def error_def)

lemma log_console_level:
  assumes "shouldLog lg lvl d"
  shows "\<exists>e. console (log sf now lvl msg tid d dat lg) = console lg @ [(consoleMethod lvl, e)]
             \<and> level e = lvl \<and> traceId e = tid"
  using assms by (auto simp: log_def Let_def split: option.splits)


subsection \<open>Log rotation\<close>

lemma num_to_string_nonempty: "num_to_string n \<noteq> []"
  by (subst num_to_string.simps) simp

lemma digit_char_eq_1: "d < 10 \<Longrightarrow> digit_char d = digit_char (Suc 0) \<longleftrightarrow> d = Suc 0"
  by (auto simp: digit_char_def char_of_eq_iff take_bit_eq_mod)

lemma num_to_string_eq_1: "num_to_string n = num_to_string (Suc 0) \<longleftrightarrow> n = Suc 0"
proof (cases "n < 10")
  case True
  have one: "num_to_string (Suc 0) = [digit_char (Suc 0)]" by (subst num_to_string.simps) simp
  have "num_to_string n = [digit_char n]" using True by (subst num_to_string.simps) simp
  then show ?thesis using digit_char_eq_1[OF True] one by simp
next
  case False
  have one: "num_to_string (Suc 0) = [digit_char (Suc 0)]" by (subst num_to_string.simps) simp
  have "num_to_string n = num_to_string (n div 10) @ [digit_char (n mod 10)]"
    using False by (subst num_to_string.simps) simp
  then have "length (num_to_string n) \<ge> 2"
    using num_to_string_nonempty[of "n div 10"]
    by (cases "num_to_string (n div 10)") simp_all
  then show ?thesis using False one by auto
qed

lemma backupName_neq_base: "backupName b i \<noteq> b"
  by (simp add: backupName_def)

lemma backupName_eq_1: "backupName b i = backupName b (Suc 0) \<longleftrightarrow> i = Suc 0"
  by (simp add: backupName_def num_to_string_eq_1)

lemma fs_rename_other:
  "p \<noteq> a \<Longrightarrow> p \<noteq> b \<Longrightarrow> fs_rename a b fs p = fs p"
  by (simp add: fs_rename_def split: option.splits)

lemma rotateNumbered_keeps_1:
  "rotateNumbered b j fs (backupName b (Suc 0)) = fs (backupName b (Suc 0))"
proof (induction j arbitrary: fs)
  case 0
  then show ?case by simp
next
  case (Suc j)
  let ?cur = "if Suc j = 1 then b else backupName b (Suc j)"
  have c: "backupName b (Suc 0) \<noteq> ?cur"
    using backupName_neq_base[of b "Suc 0"] backupName_eq_1[of b "Suc j"] by auto
  have n: "backupName b (Suc 0) \<noteq> backupName b (Suc j + 1)"
    using backupName_eq_1[of b "Suc j + 1"] by auto
  show ?case
    using Suc.IH[of "fs_rename ?cur (backupName b (Suc j + 1)) fs"] fs_rename_other[OF c n, of fs]
    by (simp add: Let_def)
qed

lemma rotateNumbered_moves_current:
  "fs b = Some c \<Longrightarrow>
   rotateNumbered b (Suc j) fs (backupName b (Suc (Suc 0))) = Some c
   \<and> rotateNumbered b (Suc j) fs b = None"
proof (induction j arbitrary: fs)
  case 0
  then show ?case
    using backupName_neq_base[of b "Suc (Suc 0)"] by (simp add: Let_def fs_rename_def)
next
  case (Suc j)
  let ?fs = "fs_rename (backupName b (Suc (Suc j))) (backupName b (Suc (Suc j) + 1)) fs"
  have "?fs b = fs b"
    using backupName_neq_base[of b] by (intro fs_rename_other) metis+
  then have "?fs b = Some c" using Suc.prems by simp
  then show ?case using Suc.IH[of ?fs] by (simp add: Let_def)
qed

lemma rotateFiles_ignores_counter:
  "rotateFiles (rot\<lparr>currentSize := a, writeStream := b\<rparr>) fs = rotateFiles rot fs"
  by (simp add: rotateFiles_def)

lemma rotateFiles_keeps_1:
  assumes "2 \<le> maxFiles (config rot)"
  shows "rotateFiles rot fs (backupName (logPath rot) (Suc 0)) = fs (backupName (logPath rot) (Suc 0))"
proof -
  have "backupName (logPath rot) (maxFiles (config rot)) \<noteq> backupName (logPath rot) (Suc 0)"
    using assms backupName_eq_1[of "logPath rot" "maxFiles (config rot)"] by auto
  then have "fs_unlink (backupName (logPath rot) (maxFiles (config rot))) fs
               (backupName (logPath rot) (Suc 0)) = fs (backupName (logPath rot) (Suc 0))"
    by (simp add: fs_unlink_def)
  then show ?thesis
    by (simp add: rotateFiles_def Let_def compressRotatedFiles_def rotateNumbered_keeps_1)
qed

lemma rotateFiles_moves_current:
  assumes "2 \<le> maxFiles (config rot)" and "fs (logPath rot) = Some c"
  shows "rotateFiles rot fs (backupName (logPath rot) (Suc (Suc 0))) = Some c"
proof -
  obtain j where j: "maxFiles (config rot) - 1 = Suc j"
    using assms(1) by (cases "maxFiles (config rot) - 1") auto
  let ?fs = "fs_unlink (backupName (logPath rot) (maxFiles (config rot))) fs"
  have "?fs (logPath rot) = Some c"
    using assms(2) backupName_neq_base[of "logPath rot" "maxFiles (config rot)"]
    by (auto simp: fs_unlink_def)
  from rotateNumbered_moves_current[where fs="?fs" and b="logPath rot" and c=c and j=j, OF this]
  show ?thesis
    using j by (simp add: rotateFiles_def Let_def compressRotatedFiles_def)
qed

lemma rotation_write_unfold:
  assumes "writeStream rot = None \<or> writeStream rot = Some (logPath rot)"
  shows "rotation_write bytes (fs, rot) =
     (let fs1 = (if writeStream rot = None then fs_append (logPath rot) [] fs else fs);
          size1 = (if writeStream rot = None
                   then (case fs (logPath rot) of None \<Rightarrow> 0 | Some c \<Rightarrow> length c)
                   else currentSize rot);
          rot1 = rot\<lparr>currentSize := size1, writeStream := Some (logPath rot)\<rparr>
      in if size1 + length bytes > maxFileSize (config rot)
         then (fs_append (logPath rot) bytes ((rotateFiles rot fs1)(logPath rot \<mapsto> [])),
               rot1\<lparr>currentSize := length bytes\<rparr>)
         else (fs_append (logPath rot) bytes fs1, rot1\<lparr>currentSize := size1 + length bytes\<rparr>))"
proof (cases "writeStream rot")
  case None
  then show ?thesis
    by (simp add: rotation_write_def initialize_def rotate_def Let_def rotateFiles_ignores_counter)
next
  case (Some p)
  with assms have p: "writeStream rot = Some (logPath rot)" by simp
  have e: "rot\<lparr>currentSize := currentSize rot, writeStream := Some (logPath rot)\<rparr> = rot"
    using p by simp
  have r: "rot\<lparr>writeStream := Some (logPath rot), currentSize := 0\<rparr>
         = rot\<lparr>currentSize := 0, writeStream := Some (logPath rot)\<rparr>"
    by simp
  show ?thesis
    using p by (simp add: rotation_write_def rotate_def Let_def)
qed

lemma rotation_write_never_creates_1:
  assumes "2 \<le> maxFiles (config rot)"
    and "writeStream rot = None \<or> writeStream rot = Some (logPath rot)"
  shows "fst (rotation_write bytes (fs, rot)) (backupName (logPath rot) (Suc 0))
           = fs (backupName (logPath rot) (Suc 0))"
proof -
  have n: "backupName (logPath rot) (Suc 0) \<noteq> logPath rot" by (rule backupName_neq_base)
  have a: "fs_append (logPath rot) x g (backupName (logPath rot) (Suc 0))
             = g (backupName (logPath rot) (Suc 0))" for x g
    using n by (simp add: fs_append_def)
  show ?thesis
    unfolding rotation_write_unfold[OF assms(2)] Let_def
    using n by (simp add: a rotateFiles_keeps_1[OF assms(1)])
qed

lemma rotation_write_rotates_to_2:
  assumes "2 \<le> maxFiles (config rot)" and "writeStream rot = Some (logPath rot)"
    and "currentSize rot + length bytes > maxFileSize (config rot)"
    and "fs (logPath rot) = Some c"
  shows "fst (rotation_write bytes (fs, rot)) (backupName (logPath rot) (Suc (Suc 0))) = Some c"
    and "fst (rotation_write bytes (fs, rot)) (logPath rot) = Some bytes"
    and "currentSize (snd (rotation_write bytes (fs, rot))) = length bytes"
proof -
  have w: "writeStream rot = None \<or> writeStream rot = Some (logPath rot)"
    using assms(2) by simp
  have n: "backupName (logPath rot) (Suc (Suc 0)) \<noteq> logPath rot" by (rule backupName_neq_base)
  show "fst (rotation_write bytes (fs, rot)) (backupName (logPath rot) (Suc (Suc 0))) = Some c"
    unfolding rotation_write_unfold[OF w] Let_def
    using assms n rotateFiles_moves_current[of rot fs c] by (simp add: fs_append_def)
  show "fst (rotation_write bytes (fs, rot)) (logPath rot) = Some bytes"
    unfolding rotation_write_unfold[OF w] Let_def
    using assms(2,3) by (simp add: fs_append_def)
  show "currentSize (snd (rotation_write bytes (fs, rot))) = length bytes"
    unfolding rotation_write_unfold[OF w] Let_def
    using assms(2,3) by simp
qed

lemma rotation_write_no_rotation:
  assumes "writeStream rot = Some (logPath rot)"
    and "\<not> currentSize rot + length bytes > maxFileSize (config rot)"
  shows "rotation_write bytes (fs, rot)
           = (fs_append (logPath rot) bytes fs, rot\<lparr>currentSize := currentSize rot + length bytes\<rparr>)"
  using assms by (simp add: rotation_write_def Let_def)
section \<open>Claims\<close>

subsection \<open>C1: the resolver returns a highest-scoring match\<close>

text \<open>
  C1. For every route table and every request, \<open>findRoute\<close> returns nothing exactly when no
  entry is a candidate, and otherwise the route of a candidate whose score no other
  candidate exceeds: the first such candidate in the order of the table. The domain part
  of an entry is its key up to the first colon. Its path part is what follows that colon
  (up to the next one), when the key has a colon and that piece is not empty, and else
  the \<open>path\<close> field of the route; a path part that is absent or empty counts as not
  present. An entry is a candidate when its domain part matches (the request domain
  itself: 1000; else a wildcard \<open>*.suffix\<close> whose suffix ends the request domain: 500) and
  its path part, when present, is a prefix of the request path, which adds the path part's
  length; an entry whose path part does not begin the request path is excluded though its
  domain matched, and an entry with no path part matches any path. So an exact-domain
  candidate scores above a wildcard candidate of the same path length, and on one domain
  tier the candidate with the longer path part scores above the one with the shorter.
  For example the route \<open>api.local\<close> with the \<open>path\<close> field \<open>/api\<close> is excluded for \<open>/other\<close>
  and scores 1004 for \<open>/api/users\<close>, and the key \<open>*.dev.local:/api\<close> scores 504 for
  \<open>/api/users\<close> on \<open>x.dev.local\<close>.
\<close>

theorem findRoute_highest_score:
  "(findRoute routes d url = None \<longleftrightarrow> (\<forall>e \<in> set routes. routeCandidate d url e = None))
   \<and> (findRoute routes d url = Some r \<longrightarrow>
        (\<exists>e \<in> set routes. \<exists>s. routeCandidate d url e = Some (r, s) \<and>
           (\<forall>e' \<in> set routes. \<forall>c. routeCandidate d url e' = Some c \<longrightarrow> snd c \<le> s)))
   \<and> routeCandidate d url (k, r) =
        (case matchDomain (fst (splitRouteKey k)) d of
           None \<Rightarrow> None
         | Some base \<Rightarrow>
             if \<not> truthy (pathToMatch k r) then Some (r, base)
             else if truthy url \<and> prefix (the (pathToMatch k r)) (the url)
                  then Some (r, base + length (the (pathToMatch k r)))
                  else None)
   \<and> routeCandidate d url (k, r) =
        (case matchDomain (takeWhile (\<lambda>c. c \<noteq> CHR '':'') k) d of
           None \<Rightarrow> None
         | Some base \<Rightarrow>
             (case pathToMatch k r of
                None \<Rightarrow> Some (r, base)
              | Some p \<Rightarrow>
                  if p = [] then Some (r, base)
                  else (case url of
                          None \<Rightarrow> None
                        | Some u \<Rightarrow> if prefix p u then Some (r, base + length p) else None)))
   \<and> findRoute routes d url =
        (let cands = List.map_filter (routeCandidate d url) routes
         in if cands = [] then None
            else Some (fst (hd (filter (\<lambda>c. \<forall>c' \<in> set cands. snd c' \<le> snd c) cands))))
   \<and> fst (splitRouteKey k) = takeWhile (\<lambda>c. c \<noteq> CHR '':'') k
   \<and> pathToMatch k r =
        (if CHR '':'' \<in> set k \<and>
            takeWhile (\<lambda>c. c \<noteq> CHR '':'') (tl (dropWhile (\<lambda>c. c \<noteq> CHR '':'') k)) \<noteq> []
         then Some (takeWhile (\<lambda>c. c \<noteq> CHR '':'') (tl (dropWhile (\<lambda>c. c \<noteq> CHR '':'') k)))
         else path r)
   \<and> (truthy v \<longleftrightarrow> (\<exists>s. v = Some s \<and> s \<noteq> []))
   \<and> matchDomain rd d =
        (if rd = d then Some 1000
         else if prefix ''*.'' rd \<and> suffix (drop 2 rd) d then Some 500
         else None)
   \<and> (routeCandidate d url (k1, r1) = Some (r1, s1) \<and>
        routeCandidate d url (k2, r2) = Some (r2, s2) \<and>
        fst (splitRouteKey k1) = d \<and> fst (splitRouteKey k2) \<noteq> d \<and>
        (if truthy (pathToMatch k1 r1) then length (the (pathToMatch k1 r1)) else 0)
          = (if truthy (pathToMatch k2 r2) then length (the (pathToMatch k2 r2)) else 0)
        \<longrightarrow> s2 < s1)
   \<and> (routeCandidate d url (k1, r1) = Some (r1, s1) \<and>
        routeCandidate d url (k2, r2) = Some (r2, s2) \<and>
        matchDomain (fst (splitRouteKey k1)) d = matchDomain (fst (splitRouteKey k2)) d \<and>
        (if truthy (pathToMatch k2 r2) then length (the (pathToMatch k2 r2)) else 0)
          < (if truthy (pathToMatch k1 r1) then length (the (pathToMatch k1 r1)) else 0)
        \<longrightarrow> s2 < s1)
   \<and> findRoute [(''api.local'', (plainRoute ''http://localhost:3001'')\<lparr>path := Some ''/api''\<rparr>)]
         ''api.local'' (Some ''/other'') = None
   \<and> findRoute [(''api.local'', (plainRoute ''http://localhost:3001'')\<lparr>path := Some ''/api''\<rparr>)]
         ''api.local'' (Some ''/api/users'')
       = Some ((plainRoute ''http://localhost:3001'')\<lparr>path := Some ''/api''\<rparr>)
   \<and> routeCandidate ''api.local'' (Some ''/api/users'')
         (''api.local'', (plainRoute ''http://localhost:3001'')\<lparr>path := Some ''/api''\<rparr>)
       = Some ((plainRoute ''http://localhost:3001'')\<lparr>path := Some ''/api''\<rparr>, 1004)
   \<and> routeCandidate ''x.dev.local'' (Some ''/api/users'')
         (''*.dev.local:/api'', plainRoute ''http://localhost:3001'')
       = Some (plainRoute ''http://localhost:3001'', 504)
   \<and> routeCandidate ''x.dev.local'' (Some ''/other'')
         (''*.dev.local:/api'', plainRoute ''http://localhost:3001'') = None
   \<and> pathToMatch ''api.local:/v1'' ((plainRoute ''http://localhost:3001'')\<lparr>path := Some ''/api''\<rparr>)
       = Some ''/v1''
   \<and> pathToMatch ''api.local:'' ((plainRoute ''http://localhost:3001'')\<lparr>path := Some ''/api''\<rparr>)
       = Some ''/api''"
proof -
  have ex: "findRoute [(''api.local'', (plainRoute ''http://localhost:3001'')\<lparr>path := Some ''/api''\<rparr>)]
         ''api.local'' (Some ''/other'') = None
   \<and> findRoute [(''api.local'', (plainRoute ''http://localhost:3001'')\<lparr>path := Some ''/api''\<rparr>)]
         ''api.local'' (Some ''/api/users'')
       = Some ((plainRoute ''http://localhost:3001'')\<lparr>path := Some ''/api''\<rparr>)
   \<and> routeCandidate ''api.local'' (Some ''/api/users'')
         (''api.local'', (plainRoute ''http://localhost:3001'')\<lparr>path := Some ''/api''\<rparr>)
       = Some ((plainRoute ''http://localhost:3001'')\<lparr>path := Some ''/api''\<rparr>, 1004)
   \<and> routeCandidate ''x.dev.local'' (Some ''/api/users'')
         (''*.dev.local:/api'', plainRoute ''http://localhost:3001'')
       = Some (plainRoute ''http://localhost:3001'', 504)
   \<and> routeCandidate ''x.dev.local'' (Some ''/other'')
         (''*.dev.local:/api'', plainRoute ''http://localhost:3001'') = None
   \<and> pathToMatch ''api.local:/v1'' ((plainRoute ''http://localhost:3001'')\<lparr>path := Some ''/api''\<rparr>)
       = Some ''/v1''
   \<and> pathToMatch ''api.local:'' ((plainRoute ''http://localhost:3001'')\<lparr>path := Some ''/api''\<rparr>)
       = Some ''/api''"
    by code_simp
  show ?thesis
    using findRoute_None[of routes d url] findRoute_Some[of routes d url r]
      findRoute_first_best[of routes d url]
      routeCandidate_score[of d url k r] routeCandidate_explicit[of d url k r]
      splitRouteKey_parts(1)[of k] pathToMatch_parts[of k r] truthy_iff[of v]
      matchDomain_tiers[of rd d]
      candidate_exact_beats_wildcard[of d url k1 r1 s1 k2 r2 s2]
      candidate_longer_path_wins[of d url k1 r1 s1 k2 r2 s2] ex
    by blast
qed

theorem findRoute_highest_score_witness:
  "findRoute [(''*.dev.local'', plainRoute ''A''), (''*.dev.local:/api'', plainRoute ''B''),
              (''x.dev.local'', (plainRoute ''C'')\<lparr>path := Some ''/api/users''\<rparr>),
              (''x.dev.local:/api'', plainRoute ''D'')]
     ''x.dev.local'' (Some ''/api/users/1'') = Some ((plainRoute ''C'')\<lparr>path := Some ''/api/users''\<rparr>)
   \<and> (\<exists>e \<in> set [(''*.dev.local'', plainRoute ''A''), (''*.dev.local:/api'', plainRoute ''B''),
              (''x.dev.local'', (plainRoute ''C'')\<lparr>path := Some ''/api/users''\<rparr>),
              (''x.dev.local:/api'', plainRoute ''D'')].
        \<exists>s. routeCandidate ''x.dev.local'' (Some ''/api/users/1'') e
               = Some ((plainRoute ''C'')\<lparr>path := Some ''/api/users''\<rparr>, s) \<and>
          (\<forall>e' \<in> set [(''*.dev.local'', plainRoute ''A''), (''*.dev.local:/api'', plainRoute ''B''),
              (''x.dev.local'', (plainRoute ''C'')\<lparr>path := Some ''/api/users''\<rparr>),
              (''x.dev.local:/api'', plainRoute ''D'')].
             \<forall>c. routeCandidate ''x.dev.local'' (Some ''/api/users/1'') e' = Some c \<longrightarrow> snd c \<le> s))
   \<and> (504::nat) < 1004 \<and> (1004::nat) < 1010
   \<and> routeCandidate ''api.local'' (Some ''/other'')
         (''api.local'', (plainRoute ''http://localhost:3001'')\<lparr>path := Some ''/api''\<rparr>) = None"
proof -
  let ?C = "(plainRoute ''C'')\<lparr>path := Some ''/api/users''\<rparr>"
  let ?tbl = "[(''*.dev.local'', plainRoute ''A''), (''*.dev.local:/api'', plainRoute ''B''),
              (''x.dev.local'', ?C), (''x.dev.local:/api'', plainRoute ''D'')]"
  let ?d = "''x.dev.local''" and ?u = "Some ''/api/users/1''"
  let ?P = "(plainRoute ''http://localhost:3001'')\<lparr>path := Some ''/api''\<rparr>"
  have f: "findRoute ?tbl ?d ?u = Some ?C"
    by code_simp
  have cB: "routeCandidate ?d ?u (''*.dev.local:/api'', plainRoute ''B'') = Some (plainRoute ''B'', 504)"
    by code_simp
  have cC: "routeCandidate ?d ?u (''x.dev.local'', ?C) = Some (?C, 1010)"
    by code_simp
  have cD: "routeCandidate ?d ?u (''x.dev.local:/api'', plainRoute ''D'') = Some (plainRoute ''D'', 1004)"
    by code_simp
  have h1: "fst (splitRouteKey ''x.dev.local:/api'') = ?d \<and> fst (splitRouteKey ''*.dev.local:/api'') \<noteq> ?d \<and>
        (if truthy (pathToMatch ''x.dev.local:/api'' (plainRoute ''D''))
         then length (the (pathToMatch ''x.dev.local:/api'' (plainRoute ''D''))) else 0)
          = (if truthy (pathToMatch ''*.dev.local:/api'' (plainRoute ''B''))
             then length (the (pathToMatch ''*.dev.local:/api'' (plainRoute ''B''))) else 0)"
    by code_simp
  have h2: "matchDomain (fst (splitRouteKey ''x.dev.local'')) ?d
          = matchDomain (fst (splitRouteKey ''x.dev.local:/api'')) ?d \<and>
        (if truthy (pathToMatch ''x.dev.local:/api'' (plainRoute ''D''))
         then length (the (pathToMatch ''x.dev.local:/api'' (plainRoute ''D''))) else 0)
          < (if truthy (pathToMatch ''x.dev.local'' ?C)
             then length (the (pathToMatch ''x.dev.local'' ?C)) else 0)"
    by code_simp
  have n: "findRoute [(''api.local'', ?P)] ''api.local'' (Some ''/other'') = None"
    by code_simp
  note T1 = findRoute_highest_score[where routes="?tbl" and d="?d" and url="?u" and r="?C"
      and ?k1.0="''x.dev.local:/api''" and ?r1.0="plainRoute ''D''" and ?s1.0=1004
      and ?k2.0="''*.dev.local:/api''" and ?r2.0="plainRoute ''B''" and ?s2.0=504]
  note T2 = findRoute_highest_score[where routes="?tbl" and d="?d" and url="?u" and r="?C"
      and ?k1.0="''x.dev.local''" and ?r1.0="?C" and ?s1.0=1010
      and ?k2.0="''x.dev.local:/api''" and ?r2.0="plainRoute ''D''" and ?s2.0=1004]
  note T3 = findRoute_highest_score[where routes="[(''api.local'', ?P)]" and d="''api.local''"
      and url="Some ''/other''"]
  note best = T1[THEN conjunct2, THEN conjunct1]
  note exact = T1[THEN conjunct2, THEN conjunct2, THEN conjunct2, THEN conjunct2, THEN conjunct2,
      THEN conjunct2, THEN conjunct2, THEN conjunct2, THEN conjunct2, THEN conjunct1]
  note longer = T2[THEN conjunct2, THEN conjunct2, THEN conjunct2, THEN conjunct2, THEN conjunct2,
      THEN conjunct2, THEN conjunct2, THEN conjunct2, THEN conjunct2, THEN conjunct2, THEN conjunct1]
  note none = T3[THEN conjunct1]
  from best f
  have a1: "\<exists>e \<in> set ?tbl.
        \<exists>s. routeCandidate ?d ?u e = Some (?C, s) \<and>
          (\<forall>e' \<in> set ?tbl. \<forall>c. routeCandidate ?d ?u e' = Some c \<longrightarrow> snd c \<le> s)"
    by (rule mp)
  from exact cB cD h1
  have a2: "(504::nat) < 1004"
    by (elim impE) (intro conjI, simp_all)
  from longer cC cD h2
  have b: "(1004::nat) < 1010"
    by (elim impE) (intro conjI, simp_all)
  from none n
  have "\<forall>e \<in> set [(''api.local'', ?P)]. routeCandidate ''api.local'' (Some ''/other'') e = None"
    by (rule iffD1)
  then have c: "routeCandidate ''api.local'' (Some ''/other'') (''api.local'', ?P) = None"
    by simp
  from f a1 a2 b c show ?thesis by (intro conjI)
qed

subsection \<open>C2: the path-rewriting scenario of the README\<close>

text \<open>
  C2 says that with the routes \<open>*.dev.local:/api\<close> (\<open>pathReplace\<close> the empty string) and
  \<open>*.dev.local\<close>, the request \<open>/api/users\<close> on \<open>x.dev.local\<close> is forwarded to the first
  target at \<open>/users\<close>. Evaluated on the code: with \<open>enabled\<close> omitted, as in the scenario,
  the request is answered 503, whatever the URL parser; with \<open>enabled\<close> true, and targets
  that parse as URLs, it is forwarded to the first target, at \<open>/api/users\<close> unchanged,
  because \<open>proxyRequest\<close> rewrites only for a \<open>path\<close> field of the route and not for the
  path part of the key: a route without the \<open>path\<close> field is never rewritten. \<open>/other\<close> goes
  to the second target unchanged, and a route with the \<open>path\<close> field set is rewritten to
  \<open>/users\<close>.
\<close>

theorem readme_path_routes_evaluated:
  "handleRequest newURL
     [(''*.dev.local:/api'', (plainRoute ''http://127.0.0.1:3000'')\<lparr>pathReplace := Some ''''\<rparr>),
      (''*.dev.local'', plainRoute ''http://127.0.0.1:8000'')]
     (Some ''x.dev.local'') (Some ''/api/users'') ''t1''
   = Responded 503 (JObj [(''error'', JStr ''Route disabled''), (''domain'', JStr ''x.dev.local''),
                          (''traceId'', JStr ''t1'')])
   \<and> handleRequest newURL
     [(''*.dev.local:/api'', (plainRoute ''http://127.0.0.1:3000'')\<lparr>pathReplace := Some ''''\<rparr>),
      (''*.dev.local'', plainRoute ''http://127.0.0.1:8000'')]
     (Some ''x.dev.local'') (Some ''/other'') ''t2''
   = Responded 503 (JObj [(''error'', JStr ''Route disabled''), (''domain'', JStr ''x.dev.local''),
                          (''traceId'', JStr ''t2'')])
   \<and> (newURL ''http://127.0.0.1:3000'' = Inr p \<longrightarrow>
      handleRequest newURL
        [(''*.dev.local:/api'',
            (plainRoute ''http://127.0.0.1:3000'')\<lparr>pathReplace := Some '''', enabled := Some True\<rparr>),
         (''*.dev.local'', (plainRoute ''http://127.0.0.1:8000'')\<lparr>enabled := Some True\<rparr>)]
        (Some ''x.dev.local'') (Some ''/api/users'') ''t1''
      = Proxied ''http://127.0.0.1:3000'' (Some ''/api/users''))
   \<and> (newURL ''http://127.0.0.1:8000'' = Inr q \<longrightarrow>
      handleRequest newURL
        [(''*.dev.local:/api'',
            (plainRoute ''http://127.0.0.1:3000'')\<lparr>pathReplace := Some '''', enabled := Some True\<rparr>),
         (''*.dev.local'', (plainRoute ''http://127.0.0.1:8000'')\<lparr>enabled := Some True\<rparr>)]
        (Some ''x.dev.local'') (Some ''/other'') ''t2''
      = Proxied ''http://127.0.0.1:8000'' (Some ''/other''))
   \<and> (newURL ''http://127.0.0.1:3000'' = Inr p \<longrightarrow>
      handleRequest newURL
        [(''*.dev.local'',
            (plainRoute ''http://127.0.0.1:3000'')
              \<lparr>path := Some ''/api'', pathReplace := Some '''', enabled := Some True\<rparr>)]
        (Some ''x.dev.local'') (Some ''/api/users'') ''t1''
      = Proxied ''http://127.0.0.1:3000'' (Some ''/users''))
   \<and> rewriteUrl (route\<lparr>path := None\<rparr>) url = url"
proof -
  let ?h = "Some ''x.dev.local''"
  let ?X = "(plainRoute ''http://127.0.0.1:3000'')\<lparr>pathReplace := Some ''''\<rparr>"
  let ?Y = "plainRoute ''http://127.0.0.1:8000''"
  let ?A = "(plainRoute ''http://127.0.0.1:3000'')\<lparr>pathReplace := Some '''', enabled := Some True\<rparr>"
  let ?B = "(plainRoute ''http://127.0.0.1:8000'')\<lparr>enabled := Some True\<rparr>"
  let ?F = "(plainRoute ''http://127.0.0.1:3000'')
              \<lparr>path := Some ''/api'', pathReplace := Some '''', enabled := Some True\<rparr>"
  have dm: "extractDomain ?h = ''x.dev.local''"
    by code_simp
  have f0: "findRoute [(''*.dev.local:/api'', ?X), (''*.dev.local'', ?Y)] (extractDomain ?h)
              (Some ''/api/users'') = Some ?X"
    and f0': "findRoute [(''*.dev.local:/api'', ?X), (''*.dev.local'', ?Y)] (extractDomain ?h)
              (Some ''/other'') = Some ?Y"
    and f1: "findRoute [(''*.dev.local:/api'', ?A), (''*.dev.local'', ?B)] (extractDomain ?h)
              (Some ''/api/users'') = Some ?A"
    and f2: "findRoute [(''*.dev.local:/api'', ?A), (''*.dev.local'', ?B)] (extractDomain ?h)
              (Some ''/other'') = Some ?B"
    and f3: "findRoute [(''*.dev.local'', ?F)] (extractDomain ?h) (Some ''/api/users'') = Some ?F"
    by code_simp+
  have r1: "rewriteUrl ?A (Some ''/api/users'') = Some ''/api/users''"
    and r2: "rewriteUrl ?B (Some ''/other'') = Some ''/other''"
    and r3: "rewriteUrl ?F (Some ''/api/users'') = Some ''/users''"
    by code_simp+
  have e0: "enabled ?X \<noteq> Some True" and e0': "enabled ?Y \<noteq> Some True"
    and e1: "enabled ?A = Some True" and e2: "enabled ?B = Some True" and e3: "enabled ?F = Some True"
    and t1: "target ?A = ''http://127.0.0.1:3000''" and t2: "target ?B = ''http://127.0.0.1:8000''"
    and t3: "target ?F = ''http://127.0.0.1:3000''"
    by (simp_all add: plainRoute_def)
  have c1: "handleRequest newURL [(''*.dev.local:/api'', ?X), (''*.dev.local'', ?Y)] ?h
              (Some ''/api/users'') ''t1''
            = Responded 503 (JObj [(''error'', JStr ''Route disabled''),
                (''domain'', JStr ''x.dev.local''), (''traceId'', JStr ''t1'')])"
    unfolding handleRequest_found[OF f0] using e0 by (simp add: dm)
  have c1': "handleRequest newURL [(''*.dev.local:/api'', ?X), (''*.dev.local'', ?Y)] ?h
              (Some ''/other'') ''t2''
            = Responded 503 (JObj [(''error'', JStr ''Route disabled''),
                (''domain'', JStr ''x.dev.local''), (''traceId'', JStr ''t2'')])"
    unfolding handleRequest_found[OF f0'] using e0' by (simp add: dm)
  have c2: "newURL ''http://127.0.0.1:3000'' = Inr p \<longrightarrow>
      handleRequest newURL [(''*.dev.local:/api'', ?A), (''*.dev.local'', ?B)] ?h
        (Some ''/api/users'') ''t1'' = Proxied ''http://127.0.0.1:3000'' (Some ''/api/users'')"
    unfolding handleRequest_found[OF f1] r1 e1 t1 by simp
  have c3: "newURL ''http://127.0.0.1:8000'' = Inr q \<longrightarrow>
      handleRequest newURL [(''*.dev.local:/api'', ?A), (''*.dev.local'', ?B)] ?h
        (Some ''/other'') ''t2'' = Proxied ''http://127.0.0.1:8000'' (Some ''/other'')"
    unfolding handleRequest_found[OF f2] r2 e2 t2 by simp
  have c4: "newURL ''http://127.0.0.1:3000'' = Inr p \<longrightarrow>
      handleRequest newURL [(''*.dev.local'', ?F)] ?h (Some ''/api/users'') ''t1''
        = Proxied ''http://127.0.0.1:3000'' (Some ''/users'')"
    unfolding handleRequest_found[OF f3] r3 e3 t3 by simp
  have g: "rewriteUrl (route\<lparr>path := None\<rparr>) url = url"
    by (simp add: rewriteUrl_def truthy_def)
  from c1 c1' c2 c3 c4 g show ?thesis by (intro conjI)
qed

theorem readme_path_routes_evaluated_witness:
  "handleRequest exampleURL
     [(''*.dev.local:/api'',
         (plainRoute ''http://127.0.0.1:3000'')\<lparr>pathReplace := Some '''', enabled := Some True\<rparr>),
      (''*.dev.local'', (plainRoute ''http://127.0.0.1:8000'')\<lparr>enabled := Some True\<rparr>)]
     (Some ''x.dev.local'') (Some ''/api/users'') ''t1''
   = Proxied ''http://127.0.0.1:3000'' (Some ''/api/users'')
   \<and> handleRequest exampleURL
     [(''*.dev.local:/api'',
         (plainRoute ''http://127.0.0.1:3000'')\<lparr>pathReplace := Some '''', enabled := Some True\<rparr>),
      (''*.dev.local'', (plainRoute ''http://127.0.0.1:8000'')\<lparr>enabled := Some True\<rparr>)]
     (Some ''x.dev.local'') (Some ''/other'') ''t2''
   = Proxied ''http://127.0.0.1:8000'' (Some ''/other'')
   \<and> handleRequest exampleURL
     [(''*.dev.local'',
         (plainRoute ''http://127.0.0.1:3000'')
           \<lparr>path := Some ''/api'', pathReplace := Some '''', enabled := Some True\<rparr>)]
     (Some ''x.dev.local'') (Some ''/api/users'') ''t1''
   = Proxied ''http://127.0.0.1:3000'' (Some ''/users'')"
proof -
  have u1: "exampleURL ''http://127.0.0.1:3000'' = Inr ''http:''"
    and u2: "exampleURL ''http://127.0.0.1:8000'' = Inr ''http:''"
    by code_simp+
  note T = readme_path_routes_evaluated[where newURL=exampleURL and p="''http:''" and q="''http:''"]
  note c2 = T[THEN conjunct2, THEN conjunct2, THEN conjunct1, THEN mp, OF u1]
  note c3 = T[THEN conjunct2, THEN conjunct2, THEN conjunct2, THEN conjunct1, THEN mp, OF u2]
  note c4 = T[THEN conjunct2, THEN conjunct2, THEN conjunct2, THEN conjunct2, THEN conjunct1,
      THEN mp, OF u1]
  from c2 c3 c4 show ?thesis by (intro conjI)
qed

subsection \<open>C3: masking of sensitive header values\<close>



subsection \<open>C4: an upstream error is contained\<close>

text \<open>
  C4. For every error that the proxy reports for a forwarded HTTP request, whatever its
  code: the handler of \<open>proxyRequest\<close> resolves the pending promise and never rejects it;
  it finishes the trace with status 500 and the error's message; it calls the logger at
  level warn when the code is \<open>ECONNREFUSED\<close> or \<open>ECONNRESET\<close> and at level error otherwise
  (one console line of that level when the logger accepts it); and when the response
  headers have not been sent it answers 502 with a JSON body that has the fields \<open>error\<close>
  and \<open>traceId\<close>, while a response already begun is left as it is. The handler that
  \<open>createProxy\<close> registers runs before it and only logs, at level warn, for the same two
  codes.
\<close>

theorem upstream_error_contained:
  "promise (proxyErrorHandler sf n1 n2 err trace route w) = resolve (promise w)
   \<and> (promise w = Pending \<longrightarrow> promise (proxyErrorHandler sf n1 n2 err trace route w) = Resolved)
   \<and> (promise w \<noteq> Rejected \<longrightarrow> promise (proxyErrorHandler sf n1 n2 err trace route w) \<noteq> Rejected)
   \<and> traceManager (proxyErrorHandler sf n1 n2 err trace route w)
       = snd (finishTrace n1 (tr_id trace) 500 (Some (err_message err)) None None (traceManager w))
   \<and> logger (proxyErrorHandler sf n1 n2 err trace route w)
       = log sf n2
           (if err_code err = Some ''ECONNREFUSED'' \<or> err_code err = Some ''ECONNRESET''
            then LWarn else LError)
           (if connectionLost err then ''Target server connection lost'' else ''Proxy error'')
           (tr_id trace) (Some (tr_domain trace))
           (Some (JObj [(''error'', JStr (err_message err)), (''target'', JStr (target route)),
                        (''code'', json_of_code (err_code err))]))
           (logger w)
   \<and> (shouldLog (logger w)
         (if err_code err = Some ''ECONNREFUSED'' \<or> err_code err = Some ''ECONNRESET''
          then LWarn else LError) (Some (tr_domain trace)) \<longrightarrow>
        (\<exists>e. console (logger (proxyErrorHandler sf n1 n2 err trace route w))
                = console (logger w)
                  @ [(if err_code err = Some ''ECONNREFUSED'' \<or> err_code err = Some ''ECONNRESET''
                      then ConsoleWarn else ConsoleError, e)]
              \<and> level e = (if err_code err = Some ''ECONNREFUSED'' \<or> err_code err = Some ''ECONNRESET''
                           then LWarn else LError)
              \<and> traceId e = tr_id trace))
   \<and> (\<not> headersSent (res w) \<longrightarrow>
        headersSent (res (proxyErrorHandler sf n1 n2 err trace route w))
        \<and> res_status (res (proxyErrorHandler sf n1 n2 err trace route w)) = Some 502
        \<and> (\<exists>fields. res_body (res (proxyErrorHandler sf n1 n2 err trace route w)) = Some (JObj fields)
              \<and> map_of fields ''error'' = Some (JStr ''Bad Gateway'')
              \<and> map_of fields ''traceId'' = Some (JStr (tr_id trace))))
   \<and> (headersSent (res w) \<longrightarrow> res (proxyErrorHandler sf n1 n2 err trace route w) = res w)
   \<and> emitProxyError sf n0 n1 n2 err trace route w
       = proxyErrorHandler sf n1 n2 err trace route
           (if err_code err = Some ''ECONNREFUSED'' \<or> err_code err = Some ''ECONNRESET''
            then w\<lparr>logger := log sf n0 LWarn ''Network connection issue'' ''SYSTEM'' None
                     (Some (JObj [(''error'', JStr (err_message err)),
                                  (''code'', json_of_code (err_code err)),
                                  (''target'', JStr (target route))]))
                     (logger w)\<rparr>
            else w)"
proof -
  let ?w = "proxyErrorHandler sf n1 n2 err trace route w"
  let ?lvl = "if err_code err = Some ''ECONNREFUSED'' \<or> err_code err = Some ''ECONNRESET''
              then LWarn else LError"
  have cl: "connectionLost err \<longleftrightarrow> err_code err = Some ''ECONNREFUSED'' \<or> err_code err = Some ''ECONNRESET''"
    by (auto simp: connectionLost_def)
  have p1: "promise ?w = resolve (promise w)"
    by (rule proxyErrorHandler_fields)
  have p2: "promise w = Pending \<longrightarrow> promise ?w = Resolved"
    by (simp add: p1 resolve_def)
  have p3: "promise w \<noteq> Rejected \<longrightarrow> promise ?w \<noteq> Rejected"
    by (simp add: p1 resolve_def)
  have t: "traceManager ?w
       = snd (finishTrace n1 (tr_id trace) 500 (Some (err_message err)) None None (traceManager w))"
    by (rule proxyErrorHandler_fields)
  have l: "logger ?w
       = log sf n2 ?lvl
           (if connectionLost err then ''Target server connection lost'' else ''Proxy error'')
           (tr_id trace) (Some (tr_domain trace))
           (Some (JObj [(''error'', JStr (err_message err)), (''target'', JStr (target route)),
                        (''code'', json_of_code (err_code err))]))
           (logger w)"
    unfolding proxyErrorHandler_fields(3) cl ..
  have c: "shouldLog (logger w) ?lvl (Some (tr_domain trace)) \<longrightarrow>
        (\<exists>e. console (logger ?w)
                = console (logger w)
                  @ [(if err_code err = Some ''ECONNREFUSED'' \<or> err_code err = Some ''ECONNRESET''
                      then ConsoleWarn else ConsoleError, e)]
              \<and> level e = ?lvl \<and> traceId e = tr_id trace)"
  proof
    assume a: "shouldLog (logger w) ?lvl (Some (tr_domain trace))"
    have m: "consoleMethod ?lvl = (if err_code err = Some ''ECONNREFUSED'' \<or> err_code err = Some ''ECONNRESET''
                      then ConsoleWarn else ConsoleError)"
      by (simp add: consoleMethod_def)
    show "\<exists>e. console (logger ?w)
                = console (logger w)
                  @ [(if err_code err = Some ''ECONNREFUSED'' \<or> err_code err = Some ''ECONNRESET''
                      then ConsoleWarn else ConsoleError, e)]
              \<and> level e = ?lvl \<and> traceId e = tr_id trace"
      unfolding l m[symmetric] by (rule log_console_level[OF a])
  qed
  have r1: "\<not> headersSent (res w) \<longrightarrow>
        headersSent (res ?w) \<and> res_status (res ?w) = Some 502
        \<and> (\<exists>fields. res_body (res ?w) = Some (JObj fields)
              \<and> map_of fields ''error'' = Some (JStr ''Bad Gateway'')
              \<and> map_of fields ''traceId'' = Some (JStr (tr_id trace)))"
    by (simp add: proxyErrorHandler_fields(4))
  have r2: "headersSent (res w) \<longrightarrow> res ?w = res w"
    by (simp add: proxyErrorHandler_fields(4))
  have e: "emitProxyError sf n0 n1 n2 err trace route w
       = proxyErrorHandler sf n1 n2 err trace route
           (if err_code err = Some ''ECONNREFUSED'' \<or> err_code err = Some ''ECONNRESET''
            then w\<lparr>logger := log sf n0 LWarn ''Network connection issue'' ''SYSTEM'' None
                     (Some (JObj [(''error'', JStr (err_message err)),
                                  (''code'', json_of_code (err_code err)),
                                  (''target'', JStr (target route))]))
                     (logger w)\<rparr>
            else w)"
    unfolding emitProxyError_def fallbackErrorHandler_def cl warn_def ..
  show ?thesis
    using p1 p2 p3 t l c r1 r2 e by blast
qed

theorem upstream_error_contained_witness:
  "promise (proxyErrorHandler message 5 6 refusedError (fst startedExample)
             (plainRoute ''http://127.0.0.1:3001'') exampleWorld) = Resolved
   \<and> res_status (res (proxyErrorHandler message 5 6 refusedError (fst startedExample)
             (plainRoute ''http://127.0.0.1:3001'') exampleWorld)) = Some 502
   \<and> (\<exists>fields. res_body (res (proxyErrorHandler message 5 6 refusedError (fst startedExample)
             (plainRoute ''http://127.0.0.1:3001'') exampleWorld)) = Some (JObj fields)
         \<and> map_of fields ''error'' = Some (JStr ''Bad Gateway'')
         \<and> map_of fields ''traceId'' = Some (JStr (tr_id (fst startedExample))))
   \<and> (\<exists>e. console (logger (proxyErrorHandler message 5 6 refusedError (fst startedExample)
             (plainRoute ''http://127.0.0.1:3001'') exampleWorld))
           = console (logger exampleWorld) @ [(ConsoleWarn, e)]
         \<and> level e = LWarn \<and> traceId e = tr_id (fst startedExample))
   \<and> (\<exists>e. console (logger (proxyErrorHandler message 5 6 parseError (fst startedExample)
             (plainRoute ''http://127.0.0.1:3001'') exampleWorld))
           = console (logger exampleWorld) @ [(ConsoleError, e)]
         \<and> level e = LError \<and> traceId e = tr_id (fst startedExample))
   \<and> res (proxyErrorHandler message 5 6 parseError (fst startedExample)
             (plainRoute ''http://127.0.0.1:3001'')
             (exampleWorld\<lparr>res := (res exampleWorld)\<lparr>headersSent := True, res_status := Some 200\<rparr>\<rparr>))
       = (res exampleWorld)\<lparr>headersSent := True, res_status := Some 200\<rparr>"
proof -
  let ?t = "fst startedExample" and ?r = "plainRoute ''http://127.0.0.1:3001''"
  let ?sent = "exampleWorld\<lparr>res := (res exampleWorld)\<lparr>headersSent := True, res_status := Some 200\<rparr>\<rparr>"
  have c1: "(if err_code refusedError = Some ''ECONNREFUSED'' \<or> err_code refusedError = Some ''ECONNRESET''
             then LWarn else LError) = LWarn"
    and m1: "(if err_code refusedError = Some ''ECONNREFUSED'' \<or> err_code refusedError = Some ''ECONNRESET''
             then ConsoleWarn else ConsoleError) = ConsoleWarn"
    by (simp_all add: refusedError_def)
  have c2: "(if err_code parseError = Some ''ECONNREFUSED'' \<or> err_code parseError = Some ''ECONNRESET''
             then LWarn else LError) = LError"
    and m2: "(if err_code parseError = Some ''ECONNREFUSED'' \<or> err_code parseError = Some ''ECONNRESET''
             then ConsoleWarn else ConsoleError) = ConsoleError"
    by (simp_all add: parseError_def)
  have p: "promise exampleWorld = Pending" and h: "\<not> headersSent (res exampleWorld)"
    by (simp_all add: exampleWorld_def)
  have hs: "headersSent (res ?sent)" and rs: "res ?sent = (res exampleWorld)\<lparr>headersSent := True, res_status := Some 200\<rparr>"
    by simp_all
  have td: "tr_domain ?t = ''api.local''"
    by (simp add: startedExample_def startTrace_def Let_def exampleRequest_def header_string_def truthy_def)
  have s1: "shouldLog (logger exampleWorld) LWarn (Some (tr_domain ?t))"
    and s2: "shouldLog (logger exampleWorld) LError (Some (tr_domain ?t))"
    unfolding td by (simp_all add: exampleWorld_def newLogger_def shouldLog_def targetLevel_def truthy_def
        indexOf_def levels_def)
  from upstream_error_contained[of message 5 6 refusedError ?t ?r exampleWorld 4] p h s1
  have a: "promise (proxyErrorHandler message 5 6 refusedError ?t ?r exampleWorld) = Resolved
     \<and> res_status (res (proxyErrorHandler message 5 6 refusedError ?t ?r exampleWorld)) = Some 502
     \<and> (\<exists>fields. res_body (res (proxyErrorHandler message 5 6 refusedError ?t ?r exampleWorld))
             = Some (JObj fields)
           \<and> map_of fields ''error'' = Some (JStr ''Bad Gateway'')
           \<and> map_of fields ''traceId'' = Some (JStr (tr_id ?t)))
     \<and> (\<exists>e. console (logger (proxyErrorHandler message 5 6 refusedError ?t ?r exampleWorld))
           = console (logger exampleWorld) @ [(ConsoleWarn, e)]
         \<and> level e = LWarn \<and> traceId e = tr_id ?t)"
    unfolding c1 m1 by blast
  from upstream_error_contained[of message 5 6 parseError ?t ?r exampleWorld 4] s2
  have b: "\<exists>e. console (logger (proxyErrorHandler message 5 6 parseError ?t ?r exampleWorld))
           = console (logger exampleWorld) @ [(ConsoleError, e)]
         \<and> level e = LError \<and> traceId e = tr_id ?t"
    unfolding c2 m2 by blast
  from upstream_error_contained[of message 5 6 parseError ?t ?r ?sent 4] hs
  have c: "res (proxyErrorHandler message 5 6 parseError ?t ?r ?sent) = res ?sent"
    by blast
  from a b c rs show ?thesis by simp
qed

subsection \<open>C5: rotation before a write that would exceed the limit\<close>

text \<open>
  C5 says that a rotation moves the current file to \<open>path.1\<close>. On the code, for an engine
  that keeps at least two files: no write ever changes \<open>path.1\<close>; a write that would exceed
  the limit rotates first, and the content of the current file is then at \<open>path.2\<close>, the
  data alone in a fresh file at \<open>path\<close> and the counter at the data's length; a write
  within the limit appends and adds to the counter. The loop of \<open>rotateFiles\<close> renames the
  current file when \<open>i = 1\<close>, to \<open>path.(i + 1)\<close>. Evaluated with a limit of 10 bytes and
  5 files: one byte written to a full file of 10 bytes leaves the old content at
  \<open>proxy.log.2\<close> and no \<open>proxy.log.1\<close>; 11 bytes written into a fresh engine rotate once,
  the empty first file is at \<open>proxy.log.2\<close> and there is no \<open>proxy.log.1\<close>.
\<close>

theorem rotation_moves_current_file_to_2:
  "(2 \<le> maxFiles (config rot) \<and> (writeStream rot = None \<or> writeStream rot = Some (logPath rot)) \<longrightarrow>
      fst (rotation_write bytes (fs, rot)) (backupName (logPath rot) 1)
        = fs (backupName (logPath rot) 1))
   \<and> (2 \<le> maxFiles (config rot) \<and> writeStream rot = Some (logPath rot) \<and>
        currentSize rot + length bytes > maxFileSize (config rot) \<and> fs (logPath rot) = Some c \<longrightarrow>
      fst (rotation_write bytes (fs, rot)) (backupName (logPath rot) 2) = Some c
      \<and> fst (rotation_write bytes (fs, rot)) (logPath rot) = Some bytes
      \<and> currentSize (snd (rotation_write bytes (fs, rot))) = length bytes)
   \<and> (writeStream rot = Some (logPath rot) \<and>
        \<not> currentSize rot + length bytes > maxFileSize (config rot) \<longrightarrow>
      rotation_write bytes (fs, rot)
        = (fs_append (logPath rot) bytes fs, rot\<lparr>currentSize := currentSize rot + length bytes\<rparr>))
   \<and> fst (rotation_write ''B'' ([''proxy.log'' \<mapsto> ''AAAAAAAAAA''], exampleRotation)) ''proxy.log'' = Some ''B''
   \<and> fst (rotation_write ''B'' ([''proxy.log'' \<mapsto> ''AAAAAAAAAA''], exampleRotation)) ''proxy.log.1'' = None
   \<and> fst (rotation_write ''B'' ([''proxy.log'' \<mapsto> ''AAAAAAAAAA''], exampleRotation)) ''proxy.log.2''
       = Some ''AAAAAAAAAA''
   \<and> currentSize (snd (rotation_write ''B'' ([''proxy.log'' \<mapsto> ''AAAAAAAAAA''], exampleRotation))) = 1
   \<and> fst (rotation_write ''0123456789A'' (Map.empty, exampleRotation)) ''proxy.log'' = Some ''0123456789A''
   \<and> fst (rotation_write ''0123456789A'' (Map.empty, exampleRotation)) ''proxy.log.1'' = None
   \<and> fst (rotation_write ''0123456789A'' (Map.empty, exampleRotation)) ''proxy.log.2'' = Some ''''
   \<and> currentSize (snd (rotation_write ''0123456789A'' (Map.empty, exampleRotation))) = 11"
proof -
  have ev: "fst (rotation_write ''B'' ([''proxy.log'' \<mapsto> ''AAAAAAAAAA''], exampleRotation)) ''proxy.log'' = Some ''B''
   \<and> fst (rotation_write ''B'' ([''proxy.log'' \<mapsto> ''AAAAAAAAAA''], exampleRotation)) ''proxy.log.1'' = None
   \<and> fst (rotation_write ''B'' ([''proxy.log'' \<mapsto> ''AAAAAAAAAA''], exampleRotation)) ''proxy.log.2''
       = Some ''AAAAAAAAAA''
   \<and> currentSize (snd (rotation_write ''B'' ([''proxy.log'' \<mapsto> ''AAAAAAAAAA''], exampleRotation))) = 1
   \<and> fst (rotation_write ''0123456789A'' (Map.empty, exampleRotation)) ''proxy.log'' = Some ''0123456789A''
   \<and> fst (rotation_write ''0123456789A'' (Map.empty, exampleRotation)) ''proxy.log.1'' = None
   \<and> fst (rotation_write ''0123456789A'' (Map.empty, exampleRotation)) ''proxy.log.2'' = Some ''''
   \<and> currentSize (snd (rotation_write ''0123456789A'' (Map.empty, exampleRotation))) = 11"
    by code_simp
  have one: "backupName (logPath rot) 1 = backupName (logPath rot) (Suc 0)"
    and two: "backupName (logPath rot) 2 = backupName (logPath rot) (Suc (Suc 0))"
    by (simp_all add: numeral_2_eq_2)
  show ?thesis
    unfolding one two
    using ev rotation_write_never_creates_1[of rot bytes fs]
      rotation_write_rotates_to_2[of rot bytes fs c]
      rotation_write_no_rotation[of rot bytes fs]
    by blast
qed

theorem rotation_moves_current_file_to_2_witness:
  "fst (rotation_write ''B'' ([''proxy.log'' \<mapsto> ''AAAAAAAAAA''],
          exampleRotation\<lparr>writeStream := Some ''proxy.log'', currentSize := 10\<rparr>))
       (backupName ''proxy.log'' 1)
     = [''proxy.log'' \<mapsto> ''AAAAAAAAAA''] (backupName ''proxy.log'' 1)
   \<and> fst (rotation_write ''B'' ([''proxy.log'' \<mapsto> ''AAAAAAAAAA''],
          exampleRotation\<lparr>writeStream := Some ''proxy.log'', currentSize := 10\<rparr>))
       (backupName ''proxy.log'' 2)
     = Some ''AAAAAAAAAA''
   \<and> fst (rotation_write ''B'' ([''proxy.log'' \<mapsto> ''AAAAAAAAAA''],
          exampleRotation\<lparr>writeStream := Some ''proxy.log'', currentSize := 10\<rparr>))
       ''proxy.log''
     = Some ''B''
   \<and> rotation_write ''B'' ([''proxy.log'' \<mapsto> ''AAAA''],
          exampleRotation\<lparr>writeStream := Some ''proxy.log'', currentSize := 4\<rparr>)
     = (fs_append ''proxy.log'' ''B'' [''proxy.log'' \<mapsto> ''AAAA''],
        exampleRotation\<lparr>writeStream := Some ''proxy.log'', currentSize := 4,
          currentSize := 4 + length ''B''\<rparr>)"
proof -
  let ?rot = "exampleRotation\<lparr>writeStream := Some ''proxy.log'', currentSize := 10\<rparr>"
  let ?rot4 = "exampleRotation\<lparr>writeStream := Some ''proxy.log'', currentSize := 4\<rparr>"
  let ?fs = "[''proxy.log'' \<mapsto> ''AAAAAAAAAA'']"
  have p: "logPath ?rot = ''proxy.log''" and p4: "logPath ?rot4 = ''proxy.log''"
    by (simp_all add: exampleRotation_def newLogRotation_def)
  have h: "2 \<le> maxFiles (config ?rot) \<and> writeStream ?rot = Some (logPath ?rot) \<and>
        currentSize ?rot + length ''B'' > maxFileSize (config ?rot) \<and>
        ?fs (logPath ?rot) = Some ''AAAAAAAAAA''"
    by (simp add: exampleRotation_def newLogRotation_def)
  have h4: "writeStream ?rot4 = Some (logPath ?rot4) \<and>
        \<not> currentSize ?rot4 + length ''B'' > maxFileSize (config ?rot4)"
    by (simp add: exampleRotation_def newLogRotation_def)
  from rotation_moves_current_file_to_2[of ?rot "''B''" ?fs "''AAAAAAAAAA''"] h
  have a: "fst (rotation_write ''B'' (?fs, ?rot)) (backupName (logPath ?rot) 1)
             = ?fs (backupName (logPath ?rot) 1)
     \<and> fst (rotation_write ''B'' (?fs, ?rot)) (backupName (logPath ?rot) 2) = Some ''AAAAAAAAAA''
     \<and> fst (rotation_write ''B'' (?fs, ?rot)) (logPath ?rot) = Some ''B''"
    by blast
  from rotation_moves_current_file_to_2[of ?rot4 "''B''" "[''proxy.log'' \<mapsto> ''AAAA'']" "''AAAA''"] h4
  have b: "rotation_write ''B'' ([''proxy.log'' \<mapsto> ''AAAA''], ?rot4)
     = (fs_append (logPath ?rot4) ''B'' [''proxy.log'' \<mapsto> ''AAAA''],
        ?rot4\<lparr>currentSize := currentSize ?rot4 + length ''B''\<rparr>)"
    by blast
  have cs: "currentSize ?rot4 = 4" by simp
  from a b show ?thesis unfolding p p4 cs by blast
qed

subsection \<open>C6: when the duration of a trace is written\<close>

text \<open>
  C6, as amended. A trace just started has no duration. For every trace retained by the
  trace manager, each \<open>finishTrace\<close> on its id writes the duration as \<open>now\<close> minus the start
  time and returns the record it keeps: the first call at finalization, and a second call
  on the same id, still retained during the 60 seconds after the first, writes it again
  with its own \<open>now\<close>. \<open>updateTrace\<close> writes the duration, as \<open>now\<close> minus the start time,
  whenever its updates carry a status code, and leaves it as it is when they carry neither
  a status code nor a duration. On an id that is not retained both return nothing and
  change nothing.
\<close>

theorem duration_written_by_every_finish:
  "(traces tm i = Some t \<longrightarrow>
      fst (finishTrace now i sc err rh rb tm) = traces (snd (finishTrace now i sc err rh rb tm)) i
      \<and> map_option tr_duration (fst (finishTrace now i sc err rh rb tm))
          = Some (Some (now - tr_timestamp t))
      \<and> map_option tr_duration
           (fst (finishTrace now2 i sc2 err2 rh2 rb2 (snd (finishTrace now i sc err rh rb tm))))
          = Some (Some (now2 - tr_timestamp t)))
   \<and> (traces tm i = None \<longrightarrow> finishTrace now i sc err rh rb tm = (None, tm))
   \<and> (traces tm i = Some t \<and> updates_statusCode ups \<noteq> None \<longrightarrow>
        map_option tr_duration (fst (updateTrace now i ups tm))
          = Some (Some (now - tr_timestamp (fold assignUpdate ups t))))
   \<and> (traces tm i = Some t \<and> updates_statusCode ups = None \<and> (\<forall>v. U_duration v \<notin> set ups) \<longrightarrow>
        map_option tr_duration (fst (updateTrace now i ups tm)) = Some (tr_duration t))
   \<and> (traces tm i = None \<longrightarrow> updateTrace now i ups tm = (None, tm))
   \<and> tr_duration (fst (startTrace i now req rb tm)) = None
   \<and> tr_timestamp (fst (startTrace i now req rb tm)) = now
   \<and> traces (snd (startTrace i now req rb tm)) i = Some (fst (startTrace i now req rb tm))
   \<and> (traces tm i = Some t \<and> (\<forall>d \<in> set (timers tm). snd d = i \<longrightarrow> now' < fst d) \<and>
        now' < now + 60000 \<longrightarrow>
        traces (runTimers now' (snd (finishTrace now i sc err rh rb tm))) i
          = traces (snd (finishTrace now i sc err rh rb tm)) i)"
  using finishTrace_known(1,2)[of tm i t now sc err rh rb]
    finishTrace_twice[of tm i t now2 sc2 err2 rh2 rb2 now sc err rh rb]
    finishTrace_unknown[of tm i now sc err rh rb]
    updateTrace_statusCode[of tm i t ups now] updateTrace_plain[of tm i t ups now]
    updateTrace_unknown[of tm i now ups]
    startTrace_fresh[of i now req rb tm]
    finishTrace_retention[of tm i t now' now sc err rh rb]
  by blast


theorem duration_written_by_every_finish_witness:
  "map_option tr_duration (fst (finishTrace 5 ''a'' 200 None None None (snd startedExample)))
     = Some (Some (5 - tr_timestamp (fst startedExample)))
   \<and> map_option tr_duration
       (fst (finishTrace 9 ''a'' 500 None None None
              (snd (finishTrace 5 ''a'' 200 None None None (snd startedExample)))))
     = Some (Some (9 - tr_timestamp (fst startedExample)))
   \<and> finishTrace 5 ''zz'' 200 None None None newTraceManager = (None, newTraceManager)
   \<and> updateTrace 5 ''zz'' [] newTraceManager = (None, newTraceManager)
   \<and> map_option tr_duration (fst (updateTrace 7 ''a'' [U_target (Some ''http://x'')] (snd startedExample)))
     = Some (tr_duration (fst startedExample))
   \<and> map_option tr_duration (fst (updateTrace 7 ''a'' [U_statusCode (Some 404)] (snd startedExample)))
     = Some (Some (7 - tr_timestamp (fold assignUpdate [U_statusCode (Some 404)] (fst startedExample))))
   \<and> traces (runTimers 9 (snd (finishTrace 5 ''a'' 200 None None None (snd startedExample)))) ''a''
     = traces (snd (finishTrace 5 ''a'' 200 None None None (snd startedExample))) ''a''"
proof -
  let ?tm = "snd startedExample" and ?t = "fst startedExample"
  have k: "traces ?tm ''a'' = Some ?t"
    by (simp add: startedExample_def startTrace_def Let_def)
  have n: "traces newTraceManager ''zz'' = None"
    by (simp add: newTraceManager_def)
  have tmr: "\<forall>d \<in> set (timers ?tm). snd d = ''a'' \<longrightarrow> 9 < fst d"
    by (simp add: startedExample_def startTrace_def Let_def newTraceManager_def)
  have u1: "updates_statusCode [U_target (Some ''http://x'')] = None
        \<and> (\<forall>v. U_duration v \<notin> set [U_target (Some ''http://x'')])"
    by simp
  have ar: "(9::int) < 5 + 60000"
    by simp
  have u2: "updates_statusCode [U_statusCode (Some 404)] \<noteq> None"
    by simp
  from duration_written_by_every_finish[where tm="?tm" and i="''a''" and t="?t" and now=5 and sc=200
      and err=None and rh=None and rb=None and ?now2.0=9 and ?sc2.0=500 and ?err2.0=None and ?rh2.0=None
      and ?rb2.0=None and ups="[U_target (Some ''http://x'')]" and req=exampleRequest and now'=9] k tmr ar
  have a: "map_option tr_duration (fst (finishTrace 5 ''a'' 200 None None None ?tm))
       = Some (Some (5 - tr_timestamp ?t))
     \<and> map_option tr_duration
         (fst (finishTrace 9 ''a'' 500 None None None (snd (finishTrace 5 ''a'' 200 None None None ?tm))))
       = Some (Some (9 - tr_timestamp ?t))
     \<and> traces (runTimers 9 (snd (finishTrace 5 ''a'' 200 None None None ?tm))) ''a''
       = traces (snd (finishTrace 5 ''a'' 200 None None None ?tm)) ''a''"
    by blast
  from duration_written_by_every_finish[where tm="newTraceManager" and i="''zz''" and t="?t" and now=5 and sc=200
      and err=None and rh=None and rb=None and ?now2.0=9 and ?sc2.0=500 and ?err2.0=None and ?rh2.0=None
      and ?rb2.0=None and ups="[]" and req=exampleRequest and now'=9] n
  have b: "finishTrace 5 ''zz'' 200 None None None newTraceManager = (None, newTraceManager)
     \<and> updateTrace 5 ''zz'' [] newTraceManager = (None, newTraceManager)"
    by blast
  from duration_written_by_every_finish[where tm="?tm" and i="''a''" and t="?t" and now=7 and sc=200
      and err=None and rh=None and rb=None and ?now2.0=9 and ?sc2.0=500 and ?err2.0=None and ?rh2.0=None
      and ?rb2.0=None and ups="[U_target (Some ''http://x'')]" and req=exampleRequest and now'=9] k u1
  have c: "map_option tr_duration (fst (updateTrace 7 ''a'' [U_target (Some ''http://x'')] ?tm))
       = Some (tr_duration ?t)"
    by blast
  from duration_written_by_every_finish[where tm="?tm" and i="''a''" and t="?t" and now=7 and sc=200
      and err=None and rh=None and rb=None and ?now2.0=9 and ?sc2.0=500 and ?err2.0=None and ?rh2.0=None
      and ?rb2.0=None and ups="[U_statusCode (Some 404)]" and req=exampleRequest and now'=9] k u2
  have d: "map_option tr_duration (fst (updateTrace 7 ''a'' [U_statusCode (Some 404)] ?tm))
       = Some (Some (7 - tr_timestamp (fold assignUpdate [U_statusCode (Some 404)] ?t)))"
    by blast
  from a b c d show ?thesis by blast
qed

text \<open>
  C6 as stated fails: a trace started at time 0 and finished at time 5 has duration 5; it
  is still retained at time 9, and a second \<open>finishTrace\<close> then writes 9; an \<open>updateTrace\<close>
  with a status code at time 7 writes 7.
\<close>

theorem duration_rewritten_counterexample:
  "map_option tr_duration
     (fst (finishTrace 5 ''a'' 200 None None None
            (snd (startTrace ''a'' 0 exampleRequest None newTraceManager))))
     = Some (Some 5)
   \<and> map_option tr_duration
     (fst (finishTrace 9 ''a'' 500 (Some ''socket hang up'') None None
            (runTimers 9 (snd (finishTrace 5 ''a'' 200 None None None
              (snd (startTrace ''a'' 0 exampleRequest None newTraceManager)))))))
     = Some (Some 9)
   \<and> map_option tr_duration
     (fst (updateTrace 7 ''a'' [U_statusCode (Some 404)]
            (runTimers 7 (snd (finishTrace 5 ''a'' 200 None None None
              (snd (startTrace ''a'' 0 exampleRequest None newTraceManager)))))))
     = Some (Some 7)"
  by code_simp

subsection \<open>C7: level filtering\<close>

text \<open>
  C7, as amended. For every log call with entry level \<open>l\<close> and optional domain \<open>d\<close>, the
  resolved level \<open>L\<close> is the per-domain override for \<open>d\<close> when \<open>d\<close> is a non-empty string
  with an override, else the global level. The entry is accepted exactly when \<open>L\<close> is not
  \<open>none\<close> and \<open>l\<close> is at or below \<open>L\<close> in the ranking none, error, warn, info, debug: \<open>L = none\<close>
  accepts nothing, \<open>L = error\<close> accepts the levels error and none only, \<open>L = debug\<close> accepts
  everything. A rejected call changes nothing: no entry, no buffer push, no file write, no
  broadcast, no console line. An accepted call prints one console line and hands the
  entry to the streamer.
\<close>

theorem shouldLog_accepts:
  "(shouldLog lg lvl d \<longleftrightarrow>
      targetLevel lg d \<noteq> LNone \<and> spec_rank lvl \<le> spec_rank (targetLevel lg d))
   \<and> targetLevel lg d =
       (case d of
          None \<Rightarrow> globalLevel lg
        | Some s \<Rightarrow> if s = [] then globalLevel lg
                    else (case domainLevels lg s of None \<Rightarrow> globalLevel lg | Some l \<Rightarrow> l))
   \<and> (targetLevel lg d = LNone \<longrightarrow> \<not> shouldLog lg lvl d)
   \<and> (targetLevel lg d = LError \<longrightarrow> (shouldLog lg lvl d \<longleftrightarrow> lvl = LError \<or> lvl = LNone))
   \<and> (targetLevel lg d = LDebug \<longrightarrow> shouldLog lg lvl d)
   \<and> (\<not> shouldLog lg lvl d \<longrightarrow> log sf now lvl msg tid d dat lg = lg)
   \<and> (shouldLog lg lvl d \<longrightarrow>
        console (log sf now lvl msg tid d dat lg)
          = console lg @ [(consoleMethod lvl,
              \<lparr>timestamp = now, level = lvl, traceId = tid, message = msg, domain = d, data = dat\<rparr>)]
        \<and> streamer (log sf now lvl msg tid d dat lg)
          = map_option (streamLog sf
              \<lparr>timestamp = now, level = lvl, traceId = tid, message = msg, domain = d, data = dat\<rparr>)
              (streamer lg))"
proof -
  have r: "shouldLog lg lvl d \<longleftrightarrow>
      targetLevel lg d \<noteq> LNone \<and> spec_rank lvl \<le> spec_rank (targetLevel lg d)"
    by (rule shouldLog_rank)
  have e: "targetLevel lg d = LError \<longrightarrow> (shouldLog lg lvl d \<longleftrightarrow> lvl = LError \<or> lvl = LNone)"
    unfolding r by (cases lvl) (simp_all add: spec_rank_def)
  have g: "targetLevel lg d = LDebug \<longrightarrow> shouldLog lg lvl d"
    unfolding r by (cases lvl) (simp_all add: spec_rank_def)
  show ?thesis
    using r e g targetLevel_cases[of lg d] log_rejected[of lg lvl d sf now msg tid dat]
      log_accepted[of lg lvl d sf now msg tid dat]
    by blast
qed

theorem shouldLog_accepts_witness:
  "log message 7 LDebug ''GET /'' ''t1'' (Some ''api.local'') None
       (setDomainLevel ''api.local'' LError (newLogger LDebug))
     = setDomainLevel ''api.local'' LError (newLogger LDebug)
   \<and> console (log message 7 LError ''Proxy error'' ''t1'' (Some ''api.local'') None
       (setDomainLevel ''api.local'' LError (newLogger LDebug)))
     = [(ConsoleError, \<lparr>timestamp = 7, level = LError, traceId = ''t1'', message = ''Proxy error'',
           domain = Some ''api.local'', data = None\<rparr>)]
   \<and> shouldLog (newLogger LDebug) LInfo None
   \<and> \<not> shouldLog (newLogger LNone) LError None"
proof -
  let ?lg = "setDomainLevel ''api.local'' LError (newLogger LDebug)"
  let ?d = "Some ''api.local''"
  have t: "targetLevel ?lg ?d = LError"
    by (simp add: targetLevel_def setDomainLevel_def newLogger_def truthy_def)
  have c: "console ?lg = []"
    by (simp add: setDomainLevel_def newLogger_def)
  from shouldLog_accepts[of ?lg LDebug ?d message 7 "''GET /''" "''t1''" None] t
  have a: "log message 7 LDebug ''GET /'' ''t1'' ?d None ?lg = ?lg"
    by (metis LogLevel.distinct(7,13,19))
  from shouldLog_accepts[of ?lg LError ?d message 7 "''Proxy error''" "''t1''" None] t c
  have b: "console (log message 7 LError ''Proxy error'' ''t1'' ?d None ?lg)
     = [(ConsoleError, \<lparr>timestamp = 7, level = LError, traceId = ''t1'', message = ''Proxy error'',
           domain = ?d, data = None\<rparr>)]"
    by (simp add: consoleMethod_def)
  have t2: "targetLevel (newLogger LDebug) None = LDebug"
    and t3: "targetLevel (newLogger LNone) None = LNone"
    by (simp_all add: targetLevel_def newLogger_def truthy_def)
  from shouldLog_accepts[of "newLogger LDebug" LInfo None message 0 "[]" "[]" None] t2
  have d1: "shouldLog (newLogger LDebug) LInfo None" by blast
  from shouldLog_accepts[of "newLogger LNone" LError None message 0 "[]" "[]" None] t3
  have d2: "\<not> shouldLog (newLogger LNone) LError None" by blast
  from a b d1 d2 show ?thesis by blast
qed


text \<open>
  C7 as stated fails at the entry level \<open>none\<close> with \<open>L = none\<close>: the level is at or below
  \<open>L\<close>, and the entry is rejected. And an override stored for the empty domain is not used
  for the domain \<open>''\<close>, which is falsy: the global level is.
\<close>

theorem entry_level_none_counterexample:
  "spec_rank LNone \<le> spec_rank (targetLevel (newLogger LNone) None)
   \<and> \<not> shouldLog (newLogger LNone) LNone None
   \<and> domainLevels (setDomainLevel '''' LError (newLogger LDebug)) '''' = Some LError
   \<and> targetLevel (setDomainLevel '''' LError (newLogger LDebug)) (Some '''') = LDebug"
  by (simp add: spec_rank_def targetLevel_def shouldLog_def newLogger_def setDomainLevel_def truthy_def)

subsection \<open>C8: the log buffer holds at most 1000 entries\<close>

text \<open>
  C8. The buffer of a new streamer is empty, \<open>streamLog\<close> keeps a buffer of at most 1000
  entries at most 1000 long, so after each call of any sequence of calls on a new streamer
  the buffer has at most 1000 entries; and after 1001 calls the buffer is the sequence
  without its first entry: the last entry pushed is in it and the first one (told apart
  from the others) is not.
\<close>

theorem logBuffer_capacity:
  "maxBufferSize = 1000
   \<and> logBuffer (newLogStreamer fs lf rc) = []
   \<and> (length (logBuffer st) \<le> 1000 \<longrightarrow> length (logBuffer (streamLog sf e st)) \<le> 1000)
   \<and> (logBuffer st = [] \<longrightarrow>
        (\<forall>n. length (logBuffer (fold (streamLog sf) (take n es) st)) \<le> 1000))
   \<and> (logBuffer st = [] \<and> length es = 1001 \<longrightarrow>
        logBuffer (fold (streamLog sf) es st) = tl es
        \<and> last es \<in> set (logBuffer (fold (streamLog sf) es st))
        \<and> (distinct es \<longrightarrow> hd es \<notin> set (logBuffer (fold (streamLog sf) es st))))"
proof -
  have m: "maxBufferSize = 1000" by (simp add: maxBufferSize_def)
  have n: "logBuffer (newLogStreamer fs lf rc) = []" by (simp add: newLogStreamer_def)
  have s: "length (logBuffer st) \<le> 1000 \<longrightarrow> length (logBuffer (streamLog sf e st)) \<le> 1000"
    using streamLog_bounded[of st sf e] by (simp add: m)
  have p: "logBuffer st = [] \<longrightarrow>
        (\<forall>n. length (logBuffer (fold (streamLog sf) (take n es) st)) \<le> 1000)"
    using fold_streamLog_bounded[of st sf] by (simp add: m)
  have q: "logBuffer (fold (streamLog sf) es st) = tl es
        \<and> last es \<in> set (logBuffer (fold (streamLog sf) es st))
        \<and> (distinct es \<longrightarrow> hd es \<notin> set (logBuffer (fold (streamLog sf) es st)))"
    if e: "logBuffer st = []" and l: "length es = 1001"
  proof -
    obtain x xs where xs: "es = x # xs" using l by (cases es) auto
    have xne: "xs \<noteq> []" using l xs by auto
    have "logBuffer (fold (streamLog sf) es st) = drop (length es - 1000) es"
      using fold_streamLog_buffer[of st sf es] e by (simp add: m)
    then have b: "logBuffer (fold (streamLog sf) es st) = tl es"
      using l xs by simp
    show ?thesis unfolding b using xs xne by simp
  qed
  show ?thesis using m n s p q by blast
qed

theorem logBuffer_capacity_witness:
  "hd (map numberedEntry [0..<1001])
     \<notin> set (logBuffer (fold (streamLog message) (map numberedEntry [0..<1001])
                (newLogStreamer Map.empty None None)))
   \<and> last (map numberedEntry [0..<1001])
     \<in> set (logBuffer (fold (streamLog message) (map numberedEntry [0..<1001])
                (newLogStreamer Map.empty None None)))
   \<and> length (logBuffer (fold (streamLog message) (take 1001 (map numberedEntry [0..<1001]))
                (newLogStreamer Map.empty None None))) \<le> 1000
   \<and> length (logBuffer (streamLog message (numberedEntry 0) (newLogStreamer Map.empty None None))) \<le> 1000"
proof -
  let ?es = "map numberedEntry [0..<1001]"
  let ?st = "newLogStreamer Map.empty None None"
  have h1: "logBuffer ?st = []" by (simp add: newLogStreamer_def)
  have h2: "length ?es = 1001" by simp
  have h3: "distinct ?es" by (simp add: distinct_map inj_on_def numberedEntry_def)
  have h4: "length (logBuffer ?st) \<le> 1000" using h1 by simp
  from logBuffer_capacity[of Map.empty None None ?st message "numberedEntry 0" ?es] h1 h2 h3 h4
  show ?thesis by blast
qed

subsection \<open>C9: a route without the enabled field is answered 503\<close>

text \<open>
  C9. When the route that \<open>findRoute\<close> returns for a request has no \<open>enabled\<close> field, the
  response is 503 with the error \<open>Route disabled\<close>, the same as for \<open>enabled: false\<close>; only
  a route whose \<open>enabled\<close> is \<open>true\<close> is proxied. Such a route is proxied to its target
  when the target parses as a URL, and the request is answered 500 with the parser's
  message when it does not.
\<close>

theorem omitted_enabled_is_disabled:
  "(findRoute routes (extractDomain host) url = Some route \<and> enabled route = None \<longrightarrow>
      handleRequest newURL routes host url tid =
        Responded 503 (JObj [(''error'', JStr ''Route disabled''),
             (''domain'', JStr (extractDomain host)), (''traceId'', JStr tid)]))
   \<and> (findRoute routes (extractDomain host) url = Some route \<and> enabled route = Some False \<longrightarrow>
      handleRequest newURL routes host url tid =
        Responded 503 (JObj [(''error'', JStr ''Route disabled''),
             (''domain'', JStr (extractDomain host)), (''traceId'', JStr tid)]))
   \<and> (findRoute routes (extractDomain host) url = Some route \<and>
        (\<exists>t u. handleRequest newURL routes host url tid = Proxied t u) \<longrightarrow>
      enabled route = Some True)
   \<and> (findRoute routes (extractDomain host) url = Some route \<and> enabled route = Some True \<and>
        newURL (target route) = Inr protocol \<longrightarrow>
      handleRequest newURL routes host url tid = Proxied (target route) (rewriteUrl route url))
   \<and> (findRoute routes (extractDomain host) url = Some route \<and> enabled route = Some True \<and>
        newURL (target route) = Inl msg \<longrightarrow>
      handleRequest newURL routes host url tid =
        Responded 500 (JObj [(''error'', JStr ''Internal server error''), (''traceId'', JStr tid),
             (''message'', JStr msg)]))"
proof -
  have a: "findRoute routes (extractDomain host) url = Some route \<and> enabled route = None \<longrightarrow>
      handleRequest newURL routes host url tid =
        Responded 503 (JObj [(''error'', JStr ''Route disabled''),
             (''domain'', JStr (extractDomain host)), (''traceId'', JStr tid)])"
    using handleRequest_found[of routes host url route newURL tid] by simp
  have b: "findRoute routes (extractDomain host) url = Some route \<and> enabled route = Some False \<longrightarrow>
      handleRequest newURL routes host url tid =
        Responded 503 (JObj [(''error'', JStr ''Route disabled''),
             (''domain'', JStr (extractDomain host)), (''traceId'', JStr tid)])"
    using handleRequest_found[of routes host url route newURL tid] by simp
  have c: "findRoute routes (extractDomain host) url = Some route \<and>
        (\<exists>t u. handleRequest newURL routes host url tid = Proxied t u) \<longrightarrow>
      enabled route = Some True"
    using handleRequest_found[of routes host url route newURL tid]
    by (auto split: if_splits)
  have d: "findRoute routes (extractDomain host) url = Some route \<and> enabled route = Some True \<and>
        newURL (target route) = Inr protocol \<longrightarrow>
      handleRequest newURL routes host url tid = Proxied (target route) (rewriteUrl route url)"
    using handleRequest_found[of routes host url route newURL tid] by simp
  have e: "findRoute routes (extractDomain host) url = Some route \<and> enabled route = Some True \<and>
        newURL (target route) = Inl msg \<longrightarrow>
      handleRequest newURL routes host url tid =
        Responded 500 (JObj [(''error'', JStr ''Internal server error''), (''traceId'', JStr tid),
             (''message'', JStr msg)])"
    using handleRequest_found[of routes host url route newURL tid] by simp
  from a b c d e show ?thesis by (intro conjI)
qed

theorem omitted_enabled_is_disabled_witness:
  "handleRequest exampleURL [(''api.local'', plainRoute ''http://localhost:3001'')]
     (Some ''api.local:8080'') (Some ''/'') ''t1''
   = Responded 503 (JObj [(''error'', JStr ''Route disabled''),
       (''domain'', JStr (extractDomain (Some ''api.local:8080''))), (''traceId'', JStr ''t1'')])
   \<and> handleRequest exampleURL
       [(''api.local'', (plainRoute ''http://localhost:3001'')\<lparr>enabled := Some False\<rparr>)]
     (Some ''api.local:8080'') (Some ''/'') ''t1''
   = Responded 503 (JObj [(''error'', JStr ''Route disabled''),
       (''domain'', JStr (extractDomain (Some ''api.local:8080''))), (''traceId'', JStr ''t1'')])
   \<and> handleRequest exampleURL
       [(''api.local'', (plainRoute ''http://localhost:3001'')\<lparr>enabled := Some True\<rparr>)]
     (Some ''api.local:8080'') (Some ''/'') ''t1''
   = Proxied (target ((plainRoute ''http://localhost:3001'')\<lparr>enabled := Some True\<rparr>))
       (rewriteUrl ((plainRoute ''http://localhost:3001'')\<lparr>enabled := Some True\<rparr>) (Some ''/''))
   \<and> enabled ((plainRoute ''http://localhost:3001'')\<lparr>enabled := Some True\<rparr>) = Some True
   \<and> handleRequest exampleURL
       [(''api.local'', (plainRoute ''127.0.0.1:3001'')\<lparr>enabled := Some True\<rparr>)]
     (Some ''api.local:8080'') (Some ''/'') ''t1''
   = Responded 500 (JObj [(''error'', JStr ''Internal server error''), (''traceId'', JStr ''t1''),
       (''message'', JStr ''Invalid URL'')])"
proof -
  let ?h = "Some ''api.local:8080''" and ?u = "Some ''/''"
  let ?r = "plainRoute ''http://localhost:3001''"
  let ?rf = "(plainRoute ''http://localhost:3001'')\<lparr>enabled := Some False\<rparr>"
  let ?rt = "(plainRoute ''http://localhost:3001'')\<lparr>enabled := Some True\<rparr>"
  let ?rb = "(plainRoute ''127.0.0.1:3001'')\<lparr>enabled := Some True\<rparr>"
  have f1: "findRoute [(''api.local'', ?r)] (extractDomain ?h) ?u = Some ?r \<and> enabled ?r = None"
    by code_simp
  have f2: "findRoute [(''api.local'', ?rf)] (extractDomain ?h) ?u = Some ?rf
            \<and> enabled ?rf = Some False"
    by code_simp
  have f3: "findRoute [(''api.local'', ?rt)] (extractDomain ?h) ?u = Some ?rt
            \<and> enabled ?rt = Some True \<and> exampleURL (target ?rt) = Inr ''http:''"
    by code_simp
  have f4: "findRoute [(''api.local'', ?rb)] (extractDomain ?h) ?u = Some ?rb
            \<and> enabled ?rb = Some True \<and> exampleURL (target ?rb) = Inl ''Invalid URL''"
    by code_simp
  note a = omitted_enabled_is_disabled[where routes="[(''api.local'', ?r)]" and host="?h"
      and url="?u" and route="?r" and tid="''t1''" and newURL=exampleURL,
      THEN conjunct1, THEN mp, OF f1]
  note b = omitted_enabled_is_disabled[where routes="[(''api.local'', ?rf)]" and host="?h"
      and url="?u" and route="?rf" and tid="''t1''" and newURL=exampleURL,
      THEN conjunct2, THEN conjunct1, THEN mp, OF f2]
  note c = omitted_enabled_is_disabled[where routes="[(''api.local'', ?rt)]" and host="?h"
      and url="?u" and route="?rt" and tid="''t1''" and newURL=exampleURL
      and protocol="''http:''",
      THEN conjunct2, THEN conjunct2, THEN conjunct2, THEN conjunct1, THEN mp, OF f3]
  have pr: "\<exists>t u. handleRequest exampleURL [(''api.local'', ?rt)] ?h ?u ''t1'' = Proxied t u"
    using c by blast
  note d = omitted_enabled_is_disabled[where routes="[(''api.local'', ?rt)]" and host="?h"
      and url="?u" and route="?rt" and tid="''t1''" and newURL=exampleURL,
      THEN conjunct2, THEN conjunct2, THEN conjunct1, THEN mp, OF conjI, OF f3[THEN conjunct1] pr]
  note e = omitted_enabled_is_disabled[where routes="[(''api.local'', ?rb)]" and host="?h"
      and url="?u" and route="?rb" and tid="''t1''" and newURL=exampleURL
      and msg="''Invalid URL''",
      THEN conjunct2, THEN conjunct2, THEN conjunct2, THEN conjunct2, THEN mp, OF f4]
  from a b c d e show ?thesis by (intro conjI)
qed

subsection \<open>C10: wildcard matching is a suffix test\<close>

text \<open>
  C10, as amended. For a route domain \<open>*.S\<close>, a request domain other than the text \<open>*.S\<close>
  itself is a wildcard match, scored 500, exactly when it ends with \<open>S\<close>; no label boundary
  is required, so for \<open>*.dev.local\<close> the domains \<open>notdev.local\<close>, \<open>dev.local\<close> and
  \<open>x.dev.local\<close> all match. The request domain that is the text \<open>*.S\<close> takes the exact
  branch and scores 1000.
\<close>

theorem wildcard_is_suffix_test:
  "matchDomain (''*.'' @ S) d =
     (if d = ''*.'' @ S then Some 1000 else if suffix S d then Some 500 else None)
   \<and> matchDomain ''*.dev.local'' ''notdev.local'' = Some 500
   \<and> matchDomain ''*.dev.local'' ''dev.local'' = Some 500
   \<and> matchDomain ''*.dev.local'' ''x.dev.local'' = Some 500
   \<and> findRoute [(''*.dev.local'', plainRoute T)] ''notdev.local'' url = Some (plainRoute T)
   \<and> findRoute [(''*.dev.local'', plainRoute T)] ''dev.local'' url = Some (plainRoute T)"
proof -
  have g: "matchDomain (''*.'' @ S) d =
     (if d = ''*.'' @ S then Some 1000 else if suffix S d then Some 500 else None)"
    by (auto simp: matchDomain_tiers)
  have e1: "matchDomain ''*.dev.local'' ''notdev.local'' = Some 500"
    and e2: "matchDomain ''*.dev.local'' ''dev.local'' = Some 500"
    and e3: "matchDomain ''*.dev.local'' ''x.dev.local'' = Some 500"
    by code_simp+
  have sk: "splitRouteKey ''*.dev.local'' = (''*.dev.local'', None)"
    by code_simp
  have c: "\<And>dm. matchDomain ''*.dev.local'' dm = Some 500 \<Longrightarrow>
     routeCandidate dm url (''*.dev.local'', plainRoute T) = Some (plainRoute T, 500)"
    by (simp add: routeCandidate_def sk pathToMatch_def js_or_def truthy_def plainRoute_def)
  have f: "\<And>dm. matchDomain ''*.dev.local'' dm = Some 500 \<Longrightarrow>
     findRoute [(''*.dev.local'', plainRoute T)] dm url = Some (plainRoute T)"
    by (simp add: findRoute_def c)
  show ?thesis using g e1 e2 e3 f[OF e1] f[OF e2] by blast
qed

text \<open>
  C10 as stated fails for the request domain \<open>*.dev.local\<close>: it ends with \<open>dev.local\<close>, and
  the key \<open>*.dev.local\<close> matches it exactly, with score 1000 and not 500.
\<close>

theorem wildcard_key_text_is_exact_match:
  "endsWith ''*.dev.local'' ''dev.local'' \<and> matchDomain ''*.dev.local'' ''*.dev.local'' = Some 1000"
  by code_simp

end
